theory Spec2Isabelle
  imports Main
begin

section \<open>Errors\<close>

text \<open>
  Every \<^verbatim>\<open>throw new Error(...)\<close> of the sources is a value of this type; the
  argument is the part of the message that varies (the range expression).
  \<open>TypeError\<close> is what the runtime raises on a property read of \<^verbatim>\<open>undefined\<close>
  or \<^verbatim>\<open>null\<close>, \<open>SyntaxError\<close> what a JSON parser raises.
\<close>

datatype error =
    BadRangeExpression string
  | BadRangeExpressionMinGtMax string
  | ExhaustedRange string
  | AlreadyStarted
  | AgentClosed
  | TypeError
  | SyntaxError

section \<open>PortManager (src/lib/PortManager.ts)\<close>

subsection \<open>Strings and numbers\<close>

text \<open>
  Port numbers are natural numbers. The source's numbers are IEEE doubles, which
  represent every integer below \<open>2^53\<close> exactly; the model is the code for those.
  From \<open>2^53\<close> on the runtime rounds (\<^verbatim>\<open>parseInt\<close> returns a double and
  \<^verbatim>\<open>port++\<close> may leave \<^verbatim>\<open>port\<close> unchanged) and the model does not: what is stated
  about numerals read from a range expression carries the bound \<open>< 2^53\<close>.
\<close>

definition digit_chars :: string where
  "digit_chars = ''0123456789''"

definition is_digit :: "char \<Rightarrow> bool" where
  "is_digit c = (c \<in> set digit_chars)"

definition digit_char :: "nat \<Rightarrow> char" where
  "digit_char d = digit_chars ! d"

text \<open>The value of a decimal digit: its position in \<open>digit_chars\<close>.\<close>

fun index_of :: "char \<Rightarrow> string \<Rightarrow> nat" where
  "index_of c [] = 0"
| "index_of c (x # xs) = (if x = c then 0 else Suc (index_of c xs))"

definition digit_val :: "char \<Rightarrow> nat" where
  "digit_val c = index_of c digit_chars"

text \<open>
  \<^verbatim>\<open>parseInt(s)\<close> on a string of decimal digits (the only strings it is applied
  to): the number the digits denote, which is what the runtime returns when that
  number is below \<open>2^53\<close>.
\<close>

definition parseInt :: "string \<Rightarrow> nat" where
  "parseInt s = foldl (\<lambda>acc c. 10 * acc + digit_val c) 0 s"

text \<open>The decimal numeral of a number, as string concatenation \<^verbatim>\<open>'' + n\<close> produces it.\<close>

fun string_of_nat :: "nat \<Rightarrow> string" where
  "string_of_nat n =
     (if n < 10 then [digit_char n]
      else string_of_nat (n div 10) @ [digit_char (n mod 10)])"

declare string_of_nat.simps [simp del]

text \<open>
  The pool key \<^verbatim>\<open>'_' + port\<close>. A caller may pass \<^verbatim>\<open>undefined\<close> (an agent that never
  listened has no port), which concatenates as the word \<^verbatim>\<open>undefined\<close>.
\<close>

definition pool_key :: "nat option \<Rightarrow> string" where
  "pool_key port =
     CHR ''_'' # (case port of None \<Rightarrow> ''undefined'' | Some n \<Rightarrow> string_of_nat n)"

text \<open>\<^verbatim>\<open>/^[0-9]+:[0-9]+$/.test(s)\<close>: digits, one colon, digits, nothing else.\<close>

definition range_regex_test :: "string \<Rightarrow> bool" where
  "range_regex_test s =
     (let a = takeWhile is_digit s; rest = dropWhile is_digit s in
      a \<noteq> [] \<and>
      (case rest of
         [] \<Rightarrow> False
       | c # b \<Rightarrow> c = CHR '':'' \<and> b \<noteq> [] \<and> list_all is_digit b))"

text \<open>\<^verbatim>\<open>s.split(':')\<close>.\<close>

fun split_colon :: "string \<Rightarrow> string list" where
  "split_colon [] = [[]]"
| "split_colon (c # cs) =
     (if c = CHR '':'' then [] # split_colon cs
      else (case split_colon cs of
              [] \<Rightarrow> [[c]]
            | p # ps \<Rightarrow> (c # p) # ps))"

subsection \<open>State\<close>

text \<open>
  The fields of the class. \<open>None\<close> is \<^verbatim>\<open>undefined\<close>. A pool entry is
  \<open>Some None\<close> when the key holds \<^verbatim>\<open>null\<close> (free), \<open>Some (Some id)\<close> when it holds
  a client id, and \<open>None\<close> when the object has no such key.
\<close>

record PortManager =
  range_pm :: "string option"
  first_pm :: "nat option"
  last_pm :: "nat option"
  pool :: "string \<rightharpoonup> string option"

text \<open>
  \<^verbatim>\<open>!this.range\<close>: true for \<^verbatim>\<open>undefined\<close> and for the empty string. The
  functions below write the same test as a case on \<open>range_pm\<close>.
\<close>

definition no_range :: "PortManager \<Rightarrow> bool" where
  "no_range pm = (case range_pm pm of None \<Rightarrow> True | Some r \<Rightarrow> r = [])"

definition getRange :: "PortManager \<Rightarrow> string option" where
  "getRange pm = (if no_range pm then None else range_pm pm)"

text \<open>\<^verbatim>\<open>this.first || null\<close>: the number \<open>0\<close> is falsy as well.\<close>

definition getFirst :: "PortManager \<Rightarrow> nat option" where
  "getFirst pm = (case first_pm pm of None \<Rightarrow> None | Some n \<Rightarrow> if n = 0 then None else Some n)"

definition getLast :: "PortManager \<Rightarrow> nat option" where
  "getLast pm = (case last_pm pm of None \<Rightarrow> None | Some n \<Rightarrow> if n = 0 then None else Some n)"

subsection \<open>Construction\<close>

text \<open>
  The destructuring \<^verbatim>\<open>[this.first, this.last] = ...\<close> reads the elements 0 and 1 of
  the array, \<^verbatim>\<open>undefined\<close> where the array is shorter (it never is after the test of
  the expression; with an \<^verbatim>\<open>undefined\<close> bound both the comparison and the loop
  condition are false).
\<close>

definition nth_opt :: "'a list \<Rightarrow> nat \<Rightarrow> 'a option" where
  "nth_opt xs n = (if n < length xs then Some (xs ! n) else None)"

text \<open>The loop \<^verbatim>\<open>for (port = first; port <= last; port++) pool['_' + port] = null\<close>.\<close>

function fill_pool :: "nat \<Rightarrow> nat \<Rightarrow> (string \<rightharpoonup> string option) \<Rightarrow> (string \<rightharpoonup> string option)" where
  "fill_pool port lst p =
     (if port \<le> lst then fill_pool (port + 1) lst (p(pool_key (Some port) \<mapsto> None)) else p)"
  by pat_completeness auto
termination
  by (relation "measure (\<lambda>(port, lst, p). lst + 1 - port)") auto

declare fill_pool.simps [simp del]

definition initializePool :: "PortManager \<Rightarrow> error + PortManager" where
  "initializePool pm =
     (case range_pm pm of
        None \<Rightarrow> Inr pm
      | Some r \<Rightarrow>
          if r = [] then Inr pm
          else if \<not> range_regex_test r then Inl (BadRangeExpression r)
          else
            (let parts = map parseInt (split_colon r) in
             case (nth_opt parts 0, nth_opt parts 1) of
               (Some f, Some l) \<Rightarrow>
                 if f > l then Inl (BadRangeExpressionMinGtMax r)
                 else Inr (pm\<lparr>first_pm := Some f, last_pm := Some l,
                               pool := fill_pool f l (pool pm)\<rparr>)
             | (f, l) \<Rightarrow> Inr (pm\<lparr>first_pm := f, last_pm := l\<rparr>)))"

text \<open>
  The constructor reads \<^verbatim>\<open>opt.range\<close> of an optional argument: with no argument at
  all the read itself fails.
\<close>

record PortManagerOptions =
  opt_range :: "string option"

definition new_PortManager :: "PortManagerOptions option \<Rightarrow> error + PortManager" where
  "new_PortManager opt =
     (case opt of
        None \<Rightarrow> Inl TypeError
      | Some opt \<Rightarrow>
          initializePool \<lparr>range_pm = opt_range opt, first_pm = None, last_pm = None,
                          pool = Map.empty\<rparr>)"

subsection \<open>release and getNextAvailable\<close>

definition release :: "PortManager \<Rightarrow> nat option \<Rightarrow> PortManager" where
  "release pm port =
     (if no_range pm then pm
      else pm\<lparr>pool := (pool pm)(pool_key port \<mapsto> None)\<rparr>)"

text \<open>
  The scan of \<open>getNextAvailable\<close>: the first port from \<open>port\<close> up to \<open>lst\<close> whose
  pool entry is \<^verbatim>\<open>null\<close>.
\<close>

function scan_pool :: "nat \<Rightarrow> nat \<Rightarrow> (string \<rightharpoonup> string option) \<Rightarrow> nat option" where
  "scan_pool port lst p =
     (if port \<le> lst
      then (if p (pool_key (Some port)) = Some None then Some port
            else scan_pool (port + 1) lst p)
      else None)"
  by pat_completeness auto
termination
  by (relation "measure (\<lambda>(port, lst, p). lst + 1 - port)") auto

declare scan_pool.simps [simp del]

text \<open>
  The result is the thrown error, or the returned value (\<open>None\<close> for
  \<^verbatim>\<open>undefined\<close>), together with the allocator after the call. With \<open>first\<close> or
  \<open>last\<close> undefined the loop condition is false at once.
\<close>

definition getNextAvailable ::
    "PortManager \<Rightarrow> string \<Rightarrow> (error + nat option) \<times> PortManager" where
  "getNextAvailable pm clientId =
     (case range_pm pm of
        None \<Rightarrow> (Inr None, pm)
      | Some r \<Rightarrow>
          if r = [] then (Inr None, pm)
          else
            (case (case (first_pm pm, last_pm pm) of
                     (Some f, Some l) \<Rightarrow> scan_pool f l (pool pm)
                   | _ \<Rightarrow> None) of
               Some port \<Rightarrow>
                 (Inr (Some port),
                  pm\<lparr>pool := (pool pm)(pool_key (Some port) \<mapsto> Some clientId)\<rparr>)
             | None \<Rightarrow> (Inl (ExhaustedRange r), pm)))"

subsection \<open>Vocabulary of the allocator's contract\<close>

text \<open>A port is free when its pool entry holds \<^verbatim>\<open>null\<close>, the test of the scan.\<close>

definition port_free :: "PortManager \<Rightarrow> nat \<Rightarrow> bool" where
  "port_free pm q = (pool pm (pool_key (Some q)) = Some None)"

definition port_owner :: "PortManager \<Rightarrow> nat \<Rightarrow> string option" where
  "port_owner pm q = (case pool pm (pool_key (Some q)) of Some (Some c) \<Rightarrow> Some c | _ \<Rightarrow> None)"

text \<open>The ports the scan visits: \<open>first \<le> q \<le> last\<close>.\<close>

definition in_range :: "PortManager \<Rightarrow> nat \<Rightarrow> bool" where
  "in_range pm q =
     (case (first_pm pm, last_pm pm) of
        (Some f, Some l) \<Rightarrow> f \<le> q \<and> q \<le> l
      | _ \<Rightarrow> False)"

text \<open>
  Two allocators that a caller cannot tell apart: the same range, and the same pool
  entries for the ports of the range.
\<close>

definition pm_agree :: "PortManager \<Rightarrow> PortManager \<Rightarrow> bool" where
  "pm_agree pm pm' \<longleftrightarrow>
     range_pm pm = range_pm pm' \<and> first_pm pm = first_pm pm' \<and> last_pm pm = last_pm pm' \<and>
     (\<forall>r. in_range pm r \<longrightarrow> pool pm (pool_key (Some r)) = pool pm' (pool_key (Some r)))"

text \<open>
  A caller's view of the allocator: a sequence of calls, and the list of what the
  \<open>getNextAvailable\<close> calls among them returned or threw.
\<close>

datatype pm_op = Acquire string | Release "nat option"

fun exec_ops :: "PortManager \<Rightarrow> pm_op list \<Rightarrow> PortManager" where
  "exec_ops pm [] = pm"
| "exec_ops pm (Acquire c # ops) = exec_ops (snd (getNextAvailable pm c)) ops"
| "exec_ops pm (Release p # ops) = exec_ops (release pm p) ops"

fun run_ops :: "PortManager \<Rightarrow> pm_op list \<Rightarrow> (error + nat option) list" where
  "run_ops pm [] = []"
| "run_ops pm (Acquire c # ops) =
     fst (getNextAvailable pm c) # run_ops (snd (getNextAvailable pm c)) ops"
| "run_ops pm (Release p # ops) = run_ops (release pm p) ops"

section \<open>TunnelAgent (src/lib/TunnelAgent.ts)\<close>

text \<open>
  Sockets and callbacks are objects of the runtime; the model names each by a number.
  What the agent does to the outside is recorded, in order, in the field \<open>effects\<close>:
  events it emits, sockets it destroys, callbacks it calls (with the error or the
  socket they receive), and the two calls of \<open>destroy\<close>. A callback passed to
  \<^verbatim>\<open>setTimeout(..., 0)\<close> is not called: it is queued in \<open>timers\<close> and runs when the
  scheduler takes it (\<open>run_timer\<close>). Callbacks are taken to return normally and not
  to call back into the agent while it runs.
\<close>

type_synonym socket = nat
type_synonym callback = nat

datatype effect =
    Emit string
  | SocketDestroy socket
  | Callback callback "error + socket"
  | ServerClose
  | AgentDestroy

definition DEFAULT_MAX_SOCKETS :: int where
  "DEFAULT_MAX_SOCKETS = 10"

text \<open>
  The options object. The port manager it refers to is shared with the registry, so
  it is not a field here: the operations that use it take it as an argument
  (\<open>None\<close> when the agent was given none) and return it.
\<close>

record TunnelAgentOptions =
  opt_clientId :: string
  opt_maxTcpSockets :: "int option"
  opt_maxSockets :: "int option"

record TunnelAgent =
  options :: TunnelAgentOptions
  started :: bool
  closed :: bool
  port :: "nat option"
  maxTcpSockets :: int
  connectedSockets :: int
  availableSockets :: "socket list"
  waitingCreateConn :: "callback list"
  timers :: "(callback \<times> socket) list"
  effects :: "effect list"

text \<open>\<^verbatim>\<open>options.maxTcpSockets || DEFAULT_MAX_SOCKETS\<close>: zero is falsy.\<close>

definition new_TunnelAgent :: "TunnelAgentOptions \<Rightarrow> TunnelAgent" where
  "new_TunnelAgent opts =
     \<lparr>options = opts, started = False, closed = False, port = None,
      maxTcpSockets =
        (case opt_maxTcpSockets opts of
           None \<Rightarrow> DEFAULT_MAX_SOCKETS
         | Some n \<Rightarrow> if n = 0 then DEFAULT_MAX_SOCKETS else n),
      connectedSockets = 0, availableSockets = [], waitingCreateConn = [],
      timers = [], effects = []\<rparr>"

definition getPort :: "TunnelAgent \<Rightarrow> nat option" where
  "getPort a = port a"

text \<open>
  The port \<^verbatim>\<open>server.listen(serverPort)\<close> ends up bound to, taking the bind to
  succeed: the requested one, or one the operating system picks (\<open>osPort\<close>) when
  the request is \<^verbatim>\<open>undefined\<close> or \<open>0\<close>.
\<close>

definition bound_port :: "nat option \<Rightarrow> nat \<Rightarrow> nat" where
  "bound_port serverPort osPort =
     (case serverPort of None \<Rightarrow> osPort | Some n \<Rightarrow> if n = 0 then osPort else n)"

text \<open>
  \<open>listen\<close>: the first component is what awaiting the returned promise gives, the
  error thrown at once (already started) or the rejection (the port manager threw inside
  the promise's executor), or the port resolved with. The flag \<open>started\<close> stays set
  when the promise rejects.
\<close>

definition listen ::
    "PortManager option \<Rightarrow> nat \<Rightarrow> TunnelAgent \<Rightarrow>
       (error + nat) \<times> PortManager option \<times> TunnelAgent" where
  "listen pm osPort a =
     (if started a then (Inl AlreadyStarted, pm, a)
      else
        let a1 = a\<lparr>started := True\<rparr> in
        (case pm of
           None \<Rightarrow> (Inr osPort, None, a1\<lparr>port := Some osPort\<rparr>)
         | Some m \<Rightarrow>
             (case getNextAvailable m (opt_clientId (options a)) of
                (Inl e, m') \<Rightarrow> (Inl e, Some m', a1)
              | (Inr serverPort, m') \<Rightarrow>
                  (Inr (bound_port serverPort osPort), Some m',
                   a1\<lparr>port := Some (bound_port serverPort osPort)\<rparr>))))"

text \<open>\<open>_onClose\<close>, the listener of the acceptor's \<^verbatim>\<open>close\<close> event.\<close>

definition onClose :: "TunnelAgent \<Rightarrow> TunnelAgent" where
  "onClose a =
     a\<lparr>closed := True,
       waitingCreateConn := [],
       effects := effects a
         @ map (\<lambda>conn. Callback conn (Inl AgentClosed)) (waitingCreateConn a)
         @ [Emit ''end'']\<rparr>"

text \<open>\<open>_onConnection\<close>, the listener of the acceptor's \<^verbatim>\<open>connection\<close> event.\<close>

definition onConnection :: "TunnelAgent \<Rightarrow> socket \<Rightarrow> TunnelAgent" where
  "onConnection a sock =
     (if connectedSockets a \<ge> maxTcpSockets a
      then a\<lparr>effects := effects a @ [SocketDestroy sock]\<rparr>
      else
        let a1 = (if connectedSockets a = 0
                  then a\<lparr>effects := effects a @ [Emit ''online'']\<rparr> else a);
            a2 = a1\<lparr>connectedSockets := connectedSockets a1 + 1\<rparr>
        in (case waitingCreateConn a2 of
              fn # rest \<Rightarrow> a2\<lparr>waitingCreateConn := rest, timers := timers a2 @ [(fn, sock)]\<rparr>
            | [] \<Rightarrow> a2\<lparr>availableSockets := availableSockets a2 @ [sock]\<rparr>))"

text \<open>The scheduler runs the oldest pending timer: \<^verbatim>\<open>fn(null, socket)\<close>.\<close>

definition run_timer :: "TunnelAgent \<Rightarrow> TunnelAgent" where
  "run_timer a =
     (case timers a of
        [] \<Rightarrow> a
      | (fn, sock) # rest \<Rightarrow> a\<lparr>timers := rest, effects := effects a @ [Callback fn (Inr sock)]\<rparr>)"

text \<open>
  The listener \<open>_onConnection\<close> installs on the socket's \<^verbatim>\<open>close\<close> event
  (\<^verbatim>\<open>indexOf\<close> and \<^verbatim>\<open>splice\<close> remove the first occurrence).
\<close>

definition socket_close :: "TunnelAgent \<Rightarrow> socket \<Rightarrow> TunnelAgent" where
  "socket_close a sock =
     (let a1 = a\<lparr>connectedSockets := connectedSockets a - 1,
                  availableSockets := remove1 sock (availableSockets a)\<rparr>
      in if connectedSockets a1 \<le> 0
         then a1\<lparr>effects := effects a1 @ [Emit ''offline'']\<rparr> else a1)"

text \<open>
  The listener on the socket's \<^verbatim>\<open>error\<close> event: with a port manager and a truthy
  port, the listen port is released; the socket is destroyed.
\<close>

definition socket_error ::
    "PortManager option \<Rightarrow> TunnelAgent \<Rightarrow> socket \<Rightarrow> PortManager option \<times> TunnelAgent" where
  "socket_error pm a sock =
     ((case pm of
         None \<Rightarrow> None
       | Some m \<Rightarrow>
           (case port a of
              None \<Rightarrow> Some m
            | Some n \<Rightarrow> if n = 0 then Some m else Some (release m (port a)))),
      a\<lparr>effects := effects a @ [SocketDestroy sock]\<rparr>)"

definition createConnection :: "TunnelAgent \<Rightarrow> callback \<Rightarrow> TunnelAgent" where
  "createConnection a cb =
     (if closed a then a\<lparr>effects := effects a @ [Callback cb (Inl AgentClosed)]\<rparr>
      else
        (case availableSockets a of
           [] \<Rightarrow> a\<lparr>waitingCreateConn := waitingCreateConn a @ [cb]\<rparr>
         | sock # rest \<Rightarrow>
             a\<lparr>availableSockets := rest, effects := effects a @ [Callback cb (Inr sock)]\<rparr>))"

text \<open>\<^verbatim>\<open>this.server.close(); super.destroy()\<close>.\<close>

definition destroy :: "TunnelAgent \<Rightarrow> TunnelAgent" where
  "destroy a = a\<lparr>effects := effects a @ [ServerClose, AgentDestroy]\<rparr>"

text \<open>
  Everything that can happen to an agent, as one step function: the calls of its
  methods, the events of the acceptor (served by \<open>_onClose\<close> and \<open>_onConnection\<close>
  once \<open>listen\<close> has installed them), the events of a socket, and the scheduler
  running a timer.
\<close>

datatype agent_op =
    Listen nat
  | ServerCloseEvent
  | ServerConnectionEvent socket
  | RunTimer
  | SocketCloseEvent socket
  | SocketErrorEvent socket
  | CreateConnection callback
  | Destroy

fun agent_step ::
    "PortManager option \<times> TunnelAgent \<Rightarrow> agent_op \<Rightarrow> PortManager option \<times> TunnelAgent" where
  "agent_step (pm, a) (Listen osPort) = snd (listen pm osPort a)"
| "agent_step (pm, a) ServerCloseEvent = (pm, if started a then onClose a else a)"
| "agent_step (pm, a) (ServerConnectionEvent sock) =
     (pm, if started a then onConnection a sock else a)"
| "agent_step (pm, a) RunTimer = (pm, run_timer a)"
| "agent_step (pm, a) (SocketCloseEvent sock) = (pm, socket_close a sock)"
| "agent_step (pm, a) (SocketErrorEvent sock) = socket_error pm a sock"
| "agent_step (pm, a) (CreateConnection cb) = (pm, createConnection a cb)"
| "agent_step (pm, a) Destroy = (pm, destroy a)"

section \<open>Client (src/lib/Client.ts)\<close>

text \<open>A value that is a string, \<^verbatim>\<open>undefined\<close> or \<^verbatim>\<open>null\<close>.\<close>

datatype jsstring = JUndefined | JNull | JString string

text \<open>
  The fields of the class, and the listeners its constructor and the registry install:
  \<open>graceTimeout\<close> is true while the timer is pending, \<open>onAgentError\<close> while the
  \<^verbatim>\<open>agent.once('error', ...)\<close> listener is installed, and \<open>onCloseOnce\<close> holds the id
  captured by the registry's \<^verbatim>\<open>client.once('close', () => this.removeClient(id))\<close>
  while that listener is installed. \<open>closeEmitted\<close> counts the calls of
  \<^verbatim>\<open>this.emit('close')\<close>.
\<close>

record Client =
  id_c :: string
  agent :: TunnelAgent
  secret :: jsstring
  graceTimeout :: bool
  onAgentError :: bool
  onCloseOnce :: "string option"
  closeEmitted :: nat

definition new_Client :: "string \<Rightarrow> TunnelAgent \<Rightarrow> jsstring \<Rightarrow> Client" where
  "new_Client i a s =
     \<lparr>id_c = i, agent = a, secret = s, graceTimeout = True, onAgentError = True,
      onCloseOnce = None, closeEmitted = 0\<rparr>"

text \<open>The listeners on the agent's \<^verbatim>\<open>online\<close> and \<^verbatim>\<open>offline\<close> events.\<close>

definition agent_online :: "Client \<Rightarrow> Client" where
  "agent_online c = c\<lparr>graceTimeout := False\<rparr>"

definition agent_offline :: "Client \<Rightarrow> Client" where
  "agent_offline c = c\<lparr>graceTimeout := True\<rparr>"

subsection \<open>isSecurityTokenEqual\<close>

text \<open>
  \<^verbatim>\<open>jwt.decode\<close> belongs to the library \<^verbatim>\<open>jsonwebtoken\<close>, so it is a parameter
  \<open>dec\<close>: given the token text it throws, or returns \<^verbatim>\<open>null\<close> (the text is not a
  token), a string, or an object with its properties. A property value is a
  primitive or an object (an array is an object too); a number is kept as an
  integer.
\<close>

datatype jsval = VUndefined | VNull | VBool bool | VNumber int | VString string | VObject

datatype payload = PNull | PString string | PObject "(string \<times> jsval) list"

type_synonym jwt_decode = "string \<Rightarrow> error + payload"

text \<open>\<^verbatim>\<open>token.replace(/Bearer /, '')\<close>: the first occurrence is removed.\<close>

fun remove_Bearer :: "string \<Rightarrow> string" where
  "remove_Bearer [] = []"
| "remove_Bearer (c # cs) =
     (if take 7 (c # cs) = ''Bearer '' then drop 7 (c # cs) else c # remove_Bearer cs)"

definition decodeJWT :: "jwt_decode \<Rightarrow> jsstring \<Rightarrow> error + payload" where
  "decodeJWT dec token =
     (case token of JString t \<Rightarrow> dec (remove_Bearer t) | _ \<Rightarrow> Inl TypeError)"

text \<open>
  \<^verbatim>\<open>x === y\<close> for two values that come from two calls of \<^verbatim>\<open>jwt.decode\<close>:
  primitives are compared by value; an object is a fresh one in each result, so it
  is equal to nothing in the other.
\<close>

definition strict_equal :: "jsval \<Rightarrow> jsval \<Rightarrow> bool" where
  "strict_equal x y = (x \<noteq> VObject \<and> y \<noteq> VObject \<and> x = y)"

text \<open>\<^verbatim>\<open>token?.name\<close>.\<close>

definition optional_name :: "payload \<Rightarrow> jsval" where
  "optional_name p =
     (case p of
        PNull \<Rightarrow> VUndefined
      | PString _ \<Rightarrow> VUndefined
      | PObject props \<Rightarrow> (case map_of props ''name'' of None \<Rightarrow> VUndefined | Some v \<Rightarrow> v))"

definition isSecurityTokenEqual :: "jwt_decode \<Rightarrow> Client \<Rightarrow> jsstring \<Rightarrow> bool" where
  "isSecurityTokenEqual dec c clientSecret =
     (if secret c = JNull then False
      else
        (case decodeJWT dec (secret c) of
           Inl _ \<Rightarrow> False
         | Inr serverToken \<Rightarrow>
             (case decodeJWT dec clientSecret of
                Inl _ \<Rightarrow> False
              | Inr clientToken \<Rightarrow>
                  strict_equal (optional_name serverToken) (optional_name clientToken))))"

subsection \<open>handleRequest\<close>

text \<open>
  Of the public response the model keeps whether its headers have been written, and
  with which status. \<open>handleRequest\<close> installs two listeners
  on the outbound request: the response callback writes the tunnel's status and
  headers to the public response; the \<^verbatim>\<open>error\<close> listener has an empty body (a
  comment). \<open>handleRequest\<close> is the public response after the outbound request has
  emitted the given events, in order.
\<close>

record HttpServerResponse =
  headersSent :: bool
  statusCode :: "nat option"

datatype clientReq_event = ResponseEvent nat | ErrorEvent

fun clientReq_emit :: "HttpServerResponse \<Rightarrow> clientReq_event \<Rightarrow> HttpServerResponse" where
  "clientReq_emit res (ResponseEvent status) =
     res\<lparr>headersSent := True, statusCode := Some status\<rparr>"
| "clientReq_emit res ErrorEvent = res"

definition handleRequest :: "clientReq_event list \<Rightarrow> HttpServerResponse" where
  "handleRequest evs = foldl clientReq_emit \<lparr>headersSent = False, statusCode = None\<rparr> evs"

section \<open>ClientManager (src/lib/ClientManager.ts)\<close>

text \<open>
  Client objects outlive their entry in \<open>clients\<close> (\<open>removeClient\<close> deletes the
  entry and then closes the object), so the objects live in a store, \<open>heap\<close>, and
  \<open>clients\<close> maps an id to a reference into it (an index): the object's own
  properties.
\<close>

record ClientManagerOptions =
  max_tcp_sockets :: "int option"
  range_opt :: "string option"
  secret_opt :: "string option"

record ClientManager =
  opt_cm :: ClientManagerOptions
  heap :: "Client list"
  clients :: "string \<rightharpoonup> nat"
  portManager :: PortManager
  stats_tunnels :: int

definition new_ClientManager :: "ClientManagerOptions \<Rightarrow> error + ClientManager" where
  "new_ClientManager opts =
     (case new_PortManager (Some \<lparr>opt_range = range_opt opts\<rparr>) of
        Inl e \<Rightarrow> Inl e
      | Inr pm \<Rightarrow>
          Inr \<lparr>opt_cm = opts, heap = [], clients = Map.empty, portManager = pm,
               stats_tunnels = 0\<rparr>)"

text \<open>
  \<open>clients\<close> is a plain object (\<^verbatim>\<open>{}\<close>), so the read \<^verbatim>\<open>this.clients[id]\<close> falls
  back to \<^verbatim>\<open>Object.prototype\<close> for an id the object has no property for. These are
  the names found there (ECMAScript, with its legacy accessors); each holds a function
  or, for \<^verbatim>\<open>__proto__\<close>, the prototype itself: a truthy value that is no client.
\<close>

definition Object_prototype_names :: "string list" where
  "Object_prototype_names =
     [''constructor'', ''__defineGetter__'', ''__defineSetter__'', ''hasOwnProperty'',
      ''__lookupGetter__'', ''__lookupSetter__'', ''isPrototypeOf'',
      ''propertyIsEnumerable'', ''toString'', ''valueOf'', ''__proto__'',
      ''toLocaleString'']"

text \<open>What the read \<^verbatim>\<open>this.clients[id]\<close> gives.\<close>

datatype client_value = NoClient | InheritedValue | AClient Client

definition getClient :: "ClientManager \<Rightarrow> string \<Rightarrow> client_value" where
  "getClient m i =
     (case clients m i of
        Some r \<Rightarrow> if r < length (heap m) then AClient (heap m ! r) else NoClient
      | None \<Rightarrow> if i \<in> set Object_prototype_names then InheritedValue else NoClient)"

text \<open>\<^verbatim>\<open>!!this.clients[id]\<close>: true for a client and for an inherited value.\<close>

definition hasClient :: "ClientManager \<Rightarrow> string \<Rightarrow> bool" where
  "hasClient m i = (clients m i \<noteq> None \<or> i \<in> set Object_prototype_names)"

text \<open>
  What \<open>Client.close\<close> does to the client itself: \<^verbatim>\<open>clearTimeout\<close>,
  \<^verbatim>\<open>this.agent.destroy()\<close>, and \<^verbatim>\<open>this.emit('close')\<close>, which is counted and which
  removes the once-listener before running it.
\<close>

definition close_self :: "Client \<Rightarrow> Client" where
  "close_self c =
     c\<lparr>graceTimeout := False, agent := destroy (agent c),
       closeEmitted := closeEmitted c + 1, onCloseOnce := None\<rparr>"

text \<open>
  \<open>removeClient\<close> and \<open>Client.close\<close> call each other: \<open>close\<close> emits
  \<^verbatim>\<open>close\<close>, whose once-listener calls \<open>removeClient\<close>, which calls \<open>close\<close> on the
  client it finds. A reference outside the store cannot occur; the model leaves the
  state as it is there. For a name of \<open>Object_prototype_names\<close> without an entry of
  its own the source reads the inherited value and fails with a TypeError at
  \<^verbatim>\<open>client.getAgent()\<close>, before it changes anything; the model returns the unchanged
  registry and does not record that exception. No caller passes such a name:
  \<open>newClient\<close> and the once-listener pass the id of an entry (\<open>chosen_id\<close>), and the
  kill handler has read a client under the id.
\<close>

function removeClient :: "ClientManager \<Rightarrow> string \<Rightarrow> ClientManager"
  and close :: "ClientManager \<Rightarrow> nat \<Rightarrow> ClientManager" where
  "removeClient m i =
     (case clients m i of
        None \<Rightarrow> m
      | Some r \<Rightarrow>
          if r < length (heap m) then
            close (m\<lparr>portManager := release (portManager m) (getPort (agent (heap m ! r))),
                     stats_tunnels := stats_tunnels m - 1,
                     clients := (clients m)(i := None)\<rparr>) r
          else m)"
| "close m r =
     (if r < length (heap m) then
        (case onCloseOnce (heap m ! r) of
           None \<Rightarrow> m\<lparr>heap := (heap m)[r := close_self (heap m ! r)]\<rparr>
         | Some i \<Rightarrow> removeClient (m\<lparr>heap := (heap m)[r := close_self (heap m ! r)]\<rparr>) i)
      else m)"
  by pat_completeness auto
termination
proof (relation "measure (\<lambda>x. case x of
          Inl (m, i) \<Rightarrow> 2 * length (filter (\<lambda>c. onCloseOnce c \<noteq> None) (heap m)) + 1
        | Inr (m, r) \<Rightarrow> 2 * length (filter (\<lambda>c. onCloseOnce c \<noteq> None) (heap m)))")
  show "wf (measure (\<lambda>x. case x of
          Inl (m, i) \<Rightarrow> 2 * length (filter (\<lambda>c. onCloseOnce c \<noteq> None) (heap m)) + 1
        | Inr (m, r) \<Rightarrow> 2 * length (filter (\<lambda>c. onCloseOnce c \<noteq> None) (heap m))))"
    by simp
next
  fix m :: ClientManager and i :: string and r :: nat
  assume "clients m i = Some r" "r < length (heap m)"
  show "(Inr (m\<lparr>portManager := release (portManager m) (getPort (agent (heap m ! r))),
                 stats_tunnels := stats_tunnels m - 1,
                 clients := (clients m)(i := None)\<rparr>, r), Inl (m, i))
        \<in> measure (\<lambda>x. case x of
          Inl (m, i) \<Rightarrow> 2 * length (filter (\<lambda>c. onCloseOnce c \<noteq> None) (heap m)) + 1
        | Inr (m, r) \<Rightarrow> 2 * length (filter (\<lambda>c. onCloseOnce c \<noteq> None) (heap m)))"
    by simp
next
  fix m :: ClientManager and r :: nat and i :: string
  assume r: "r < length (heap m)" and armed: "onCloseOnce (heap m ! r) = Some i"
  let ?P = "\<lambda>c. onCloseOnce c \<noteq> None"
  let ?c = "close_self (heap m ! r)"
  have c: "\<not> ?P ?c" by (simp add: close_self_def)
  have split: "heap m = take r (heap m) @ (heap m ! r) # drop (Suc r) (heap m)"
    using r by (simp add: id_take_nth_drop)
  have upd: "(heap m)[r := ?c] = take r (heap m) @ ?c # drop (Suc r) (heap m)"
    using r by (simp add: upd_conv_take_nth_drop)
  have "length (filter ?P (heap m)) =
        length (filter ?P (take r (heap m))) + 1 + length (filter ?P (drop (Suc r) (heap m)))"
    using armed by (subst split) simp
  moreover have "length (filter ?P ((heap m)[r := ?c])) =
        length (filter ?P (take r (heap m))) + length (filter ?P (drop (Suc r) (heap m)))"
    using c by (subst upd) simp
  ultimately show "(Inl (m\<lparr>heap := (heap m)[r := ?c]\<rparr>, i), Inr (m, r))
        \<in> measure (\<lambda>x. case x of
          Inl (m, i) \<Rightarrow> 2 * length (filter (\<lambda>c. onCloseOnce c \<noteq> None) (heap m)) + 1
        | Inr (m, r) \<Rightarrow> 2 * length (filter (\<lambda>c. onCloseOnce c \<noteq> None) (heap m)))"
    by simp
qed

declare removeClient.simps [simp del]
declare close.simps [simp del]

text \<open>
  \<open>newClient\<close>. \<open>rnd\<close> is what \<^verbatim>\<open>hri.random()\<close> returns when it is called, and
  \<open>osPort\<close> the port the operating system picks when it is asked to. The call is
  taken as one step: nothing else runs while \<open>listen\<close> is awaited. The first
  component is the value the promise resolves with, or the error it rejects with.
\<close>

record NewClientInfo =
  info_id :: string
  info_port :: nat
  info_max_conn_count :: int

text \<open>
  \<^verbatim>\<open>if (!id || clients[id]) id = hri.random()\<close>: a requested id that reads as an
  inherited value is replaced as well. \<open>rnd\<close> has the library's form
  adjective-noun-number, so it is not one of \<open>Object_prototype_names\<close>.
\<close>

definition chosen_id :: "ClientManager \<Rightarrow> string option \<Rightarrow> string \<Rightarrow> string" where
  "chosen_id m requested rnd =
     (case requested of
        None \<Rightarrow> rnd
      | Some s \<Rightarrow> if s = [] \<or> hasClient m s then rnd else s)"

text \<open>\<^verbatim>\<open>this.opt.max_tcp_sockets || 10\<close>.\<close>

definition maxSockets :: "ClientManager \<Rightarrow> int" where
  "maxSockets m =
     (case max_tcp_sockets (opt_cm m) of None \<Rightarrow> 10 | Some n \<Rightarrow> if n = 0 then 10 else n)"

definition newClient ::
    "ClientManager \<Rightarrow> string option \<Rightarrow> jsstring \<Rightarrow> string \<Rightarrow> nat \<Rightarrow>
       (error + NewClientInfo) \<times> ClientManager" where
  "newClient m requested sec rnd osPort =
     (let i = chosen_id m requested rnd;
          a = new_TunnelAgent
                \<lparr>opt_clientId = i, opt_maxTcpSockets = None,
                 opt_maxSockets = Some (maxSockets m)\<rparr>;
          c = (new_Client i a sec)\<lparr>onCloseOnce := Some i\<rparr>;
          r = length (heap m);
          m1 = m\<lparr>heap := heap m @ [c], clients := (clients m)(i \<mapsto> r)\<rparr>
      in
        (case listen (Some (portManager m1)) osPort a of
           (res, pm', a') \<Rightarrow>
             (let m2 = m1\<lparr>heap := (heap m1)[r := c\<lparr>agent := a'\<rparr>],
                          portManager := (case pm' of None \<Rightarrow> portManager m1 | Some x \<Rightarrow> x)\<rparr>
              in
                (case res of
                   Inr p \<Rightarrow>
                     (Inr \<lparr>info_id = i, info_port = p, info_max_conn_count = maxSockets m\<rparr>,
                      m2\<lparr>stats_tunnels := stats_tunnels m2 + 1\<rparr>)
                 | Inl err \<Rightarrow> (Inl err, removeClient m2 i)))))"

text \<open>
  The two events that make a client close itself: its grace timer fires, or its
  agent emits \<^verbatim>\<open>error\<close> (a once-listener). \<open>r\<close> is the client's reference.
\<close>

definition graceTimeout_fired :: "ClientManager \<Rightarrow> nat \<Rightarrow> ClientManager" where
  "graceTimeout_fired m r =
     (if r < length (heap m) \<and> graceTimeout (heap m ! r) then close m r else m)"

definition agent_error :: "ClientManager \<Rightarrow> nat \<Rightarrow> ClientManager" where
  "agent_error m r =
     (if r < length (heap m) \<and> onAgentError (heap m ! r)
      then close (m\<lparr>heap := (heap m)[r := (heap m ! r)\<lparr>onAgentError := False\<rparr>]\<rparr>) r
      else m)"

section \<open>The kill endpoint (src/server.ts)\<close>

text \<open>
  The handler of \<^verbatim>\<open>POST /api/tunnels/:id/kill\<close>. \<open>ctx.throw(status, props)\<close> ends
  the handler with an error of that status; otherwise the handler sets status and
  body. \<open>secret_cfg\<close> is \<^verbatim>\<open>opt.secret\<close> of the server, \<open>authorization\<close> the
  request's header. \<open>Raised\<close> is an exception that leaves the handler without
  \<open>ctx.throw\<close> (the framework answers 500): the call
  \<^verbatim>\<open>getClient(clientId).isSecurityTokenEqual(token)\<close> is a TypeError when \<open>getClient\<close>
  returns an inherited value, which has no such method. With a secret configured
  the middleware \<^verbatim>\<open>koa-jwt\<close> stands before the handler and answers 401 to a request
  whose header carries no token signed with the secret: the handler then receives
  only headers \<^verbatim>\<open>Bearer\<close> followed by such a token. Without a secret there is no
  middleware and the handler receives every request.
\<close>

datatype http_result = Thrown nat string | Raised error | Responded nat string

definition show_jsstring :: "jsstring \<Rightarrow> string" where
  "show_jsstring t =
     (case t of JUndefined \<Rightarrow> ''undefined'' | JNull \<Rightarrow> ''null'' | JString s \<Rightarrow> s)"

definition kill_tunnel ::
    "jwt_decode \<Rightarrow> string option \<Rightarrow> ClientManager \<Rightarrow> string \<Rightarrow> jsstring \<Rightarrow>
       http_result \<times> ClientManager" where
  "kill_tunnel dec secret_cfg m clientId authorization =
     (if secret_cfg = None \<or> secret_cfg = Some [] then (Thrown 403 ''secret is missing'', m)
      else if \<not> hasClient m clientId
      then (Thrown 404 (''client with id '' @ clientId @ '' is not connected''), m)
      else
        (case getClient m clientId of
           AClient c \<Rightarrow>
             if \<not> isSecurityTokenEqual dec c authorization
             then (Thrown 403 (''client with id '' @ clientId
                      @ '' has not the same securityToken than '' @ show_jsstring authorization), m)
             else (Responded 200 (''client with id '' @ clientId @ '' is disconected''),
                   removeClient m clientId)
         | _ \<Rightarrow> (Raised TypeError, m)))"

section \<open>Properties of the port manager\<close>

subsection \<open>Pool keys are injective\<close>

lemma digits_table:
  "\<forall>d \<in> set [0..<10]. digit_val (digit_char d) = d \<and> is_digit (digit_char d)"
  by code_simp

lemma digit_val_digit_char: "d < 10 \<Longrightarrow> digit_val (digit_char d) = d"
  using digits_table by simp

lemma is_digit_digit_char: "d < 10 \<Longrightarrow> is_digit (digit_char d)"
  using digits_table by simp

lemma digit_char_inj: "d < 10 \<Longrightarrow> e < 10 \<Longrightarrow> digit_char d = digit_char e \<Longrightarrow> d = e"
  by (metis digit_val_digit_char)

lemma string_of_nat_not_Nil: "string_of_nat n \<noteq> []"
  by (subst string_of_nat.simps) simp

lemma string_of_nat_digits: "list_all is_digit (string_of_nat n)"
proof (induction n rule: string_of_nat.induct)
  case (1 n)
  then show ?case
    by (subst string_of_nat.simps) (simp add: is_digit_digit_char)
qed

lemma string_of_nat_inj: "string_of_nat n = string_of_nat m \<Longrightarrow> n = m"
proof (induction n arbitrary: m rule: string_of_nat.induct)
  case (1 n)
  show ?case
  proof (cases "n < 10")
    case True
    show ?thesis
    proof (cases "m < 10")
      case m: True
      from "1.prems" True m have "digit_char n = digit_char m"
        by (simp add: string_of_nat.simps)
      with True m show ?thesis by (rule digit_char_inj)
    next
      case m: False
      from "1.prems" True m have "string_of_nat (m div 10) = []"
        by (simp add: string_of_nat.simps [of n] string_of_nat.simps [of m])
      then show ?thesis by (simp add: string_of_nat_not_Nil)
    qed
  next
    case False
    show ?thesis
    proof (cases "m < 10")
      case m: True
      from "1.prems" False m have "string_of_nat (n div 10) = []"
        by (simp add: string_of_nat.simps [of n] string_of_nat.simps [of m])
      then show ?thesis by (simp add: string_of_nat_not_Nil)
    next
      case m: False
      from "1.prems" False m
      have eq: "string_of_nat (n div 10) = string_of_nat (m div 10)"
        and d: "digit_char (n mod 10) = digit_char (m mod 10)"
        by (simp_all add: string_of_nat.simps [of n] string_of_nat.simps [of m])
      from "1.IH" [OF False eq] have "n div 10 = m div 10" .
      moreover from d have "n mod 10 = m mod 10"
        by (intro digit_char_inj) simp_all
      ultimately show ?thesis by (metis div_mult_mod_eq)
    qed
  qed
qed

lemma pool_key_inj: "pool_key a = pool_key b \<Longrightarrow> a = b"
proof (cases a; cases b)
  fix n assume a: "a = None" and b: "b = Some n" and k: "pool_key a = pool_key b"
  have "list_all is_digit (string_of_nat n)" by (rule string_of_nat_digits)
  moreover from a b k have "string_of_nat n = ''undefined''" by (simp add: pool_key_def)
  ultimately show ?thesis by (simp add: is_digit_def digit_chars_def)
next
  fix n assume a: "a = Some n" and b: "b = None" and k: "pool_key a = pool_key b"
  have "list_all is_digit (string_of_nat n)" by (rule string_of_nat_digits)
  moreover from a b k have "string_of_nat n = ''undefined''" by (simp add: pool_key_def)
  ultimately show ?thesis by (simp add: is_digit_def digit_chars_def)
qed (auto simp: pool_key_def dest: string_of_nat_inj)

lemma pool_key_eq_iff [simp]: "pool_key a = pool_key b \<longleftrightarrow> a = b"
  using pool_key_inj by blast

lemma scan_pool_Some:
  "scan_pool f l p = Some q \<Longrightarrow>
     f \<le> q \<and> q \<le> l \<and> p (pool_key (Some q)) = Some None \<and>
     (\<forall>r. f \<le> r \<and> r < q \<longrightarrow> p (pool_key (Some r)) \<noteq> Some None)"
proof (induction f l p rule: scan_pool.induct)
  case (1 x lst p)
  show ?case
  proof (cases "x \<le> lst \<and> p (pool_key (Some x)) \<noteq> Some None")
    case True
    with "1.prems" have "scan_pool (x + 1) lst p = Some q"
      by (simp add: scan_pool.simps [of x])
    with "1.IH" True have ih: "x + 1 \<le> q \<and> q \<le> lst \<and> p (pool_key (Some q)) = Some None \<and>
     (\<forall>r. x + 1 \<le> r \<and> r < q \<longrightarrow> p (pool_key (Some r)) \<noteq> Some None)" by simp
    have "\<forall>r. x \<le> r \<and> r < q \<longrightarrow> p (pool_key (Some r)) \<noteq> Some None"
    proof (intro allI impI)
      fix r assume r: "x \<le> r \<and> r < q"
      show "p (pool_key (Some r)) \<noteq> Some None"
      proof (cases "r = x")
        case True with \<open>x \<le> lst \<and> p (pool_key (Some x)) \<noteq> Some None\<close> show ?thesis by simp
      next
        case False with r ih show ?thesis by simp
      qed
    qed
    with ih show ?thesis by simp
  next
    case False
    with "1.prems" show ?thesis
      by (auto simp: scan_pool.simps [of x] split: if_splits)
  qed
qed

lemma scan_pool_None:
  "scan_pool f l p = None \<longleftrightarrow> (\<forall>r. f \<le> r \<and> r \<le> l \<longrightarrow> p (pool_key (Some r)) \<noteq> Some None)"
proof (induction f l p rule: scan_pool.induct)
  case (1 x lst p)
  show ?case
  proof (cases "x \<le> lst")
    case le: True
    show ?thesis
    proof (cases "p (pool_key (Some x)) = Some None")
      case True
      with le show ?thesis by (auto simp: scan_pool.simps [of x])
    next
      case False
      with le "1.IH" have "scan_pool x lst p = None \<longleftrightarrow>
         (\<forall>r. x + 1 \<le> r \<and> r \<le> lst \<longrightarrow> p (pool_key (Some r)) \<noteq> Some None)"
        by (simp add: scan_pool.simps [of x])
      also have "\<dots> \<longleftrightarrow> (\<forall>r. x \<le> r \<and> r \<le> lst \<longrightarrow> p (pool_key (Some r)) \<noteq> Some None)"
        using False by (metis Suc_eq_plus1 Suc_leI le_eq_less_or_eq Suc_leD)
      finally show ?thesis .
    qed
  next
    case False
    then show ?thesis by (auto simp: scan_pool.simps [of x])
  qed
qed

lemma scan_pool_least:
  assumes "f \<le> q" "q \<le> l" "p (pool_key (Some q)) = Some None"
    and "\<forall>r. f \<le> r \<and> r < q \<longrightarrow> p (pool_key (Some r)) \<noteq> Some None"
  shows "scan_pool f l p = Some q"
proof (cases "scan_pool f l p")
  case None
  with assms show ?thesis by (simp add: scan_pool_None)
next
  case (Some q')
  from scan_pool_Some [OF Some] assms have "q' = q"
    by (metis linorder_neqE_nat)
  with Some show ?thesis by simp
qed

lemma scan_pool_cong:
  "(\<forall>r. f \<le> r \<and> r \<le> l \<longrightarrow> p (pool_key (Some r)) = p' (pool_key (Some r))) \<Longrightarrow>
   scan_pool f l p = scan_pool f l p'"
proof (induction f l p rule: scan_pool.induct)
  case (1 x lst p)
  show ?case
  proof (cases "x \<le> lst")
    case True
    with "1.prems" have eq: "p (pool_key (Some x)) = p' (pool_key (Some x))" by simp
    show ?thesis
    proof (cases "p (pool_key (Some x)) = Some None")
      case T: True
      with True eq show ?thesis by (simp add: scan_pool.simps [of x])
    next
      case F: False
      from "1.prems" have "\<forall>r. x + 1 \<le> r \<and> r \<le> lst \<longrightarrow> p (pool_key (Some r)) = p' (pool_key (Some r))"
        by simp
      with "1.IH" True F have "scan_pool (x + 1) lst p = scan_pool (x + 1) lst p'" by simp
      with True F eq show ?thesis by (simp add: scan_pool.simps [of x])
    qed
  next
    case False
    then show ?thesis by (simp add: scan_pool.simps [of x])
  qed
qed

lemma fill_pool_apply:
  "fill_pool f l p k =
     (if \<exists>q. f \<le> q \<and> q \<le> l \<and> k = pool_key (Some q) then Some None else p k)"
proof (induction f l p rule: fill_pool.induct)
  case (1 x lst p)
  show ?case
  proof (cases "x \<le> lst")
    case True
    have split: "(\<exists>q. x \<le> q \<and> q \<le> lst \<and> k = pool_key (Some q)) \<longleftrightarrow>
          k = pool_key (Some x) \<or> (\<exists>q. x + 1 \<le> q \<and> q \<le> lst \<and> k = pool_key (Some q))"
      using True by (metis Suc_eq_plus1 Suc_leI le_eq_less_or_eq Suc_leD order_refl)
    have "fill_pool x lst p k = fill_pool (x + 1) lst (p(pool_key (Some x) \<mapsto> None)) k"
      using True by (subst fill_pool.simps) simp
    also have "\<dots> = (if \<exists>q. x + 1 \<le> q \<and> q \<le> lst \<and> k = pool_key (Some q) then Some None
                      else (p(pool_key (Some x) \<mapsto> None)) k)"
      using "1.IH" [OF True] .
    also have "\<dots> = (if \<exists>q. x \<le> q \<and> q \<le> lst \<and> k = pool_key (Some q) then Some None else p k)"
      unfolding split by (cases "k = pool_key (Some x)") auto
    finally show ?thesis .
  next
    case False
    then show ?thesis by (auto simp: fill_pool.simps [of x])
  qed
qed

lemma getNextAvailable_unconfigured:
  "no_range pm \<Longrightarrow> getNextAvailable pm c = (Inr None, pm)"
  by (auto simp: getNextAvailable_def no_range_def split: option.splits)

lemma getNextAvailable_scan:
  "range_pm pm = Some rg \<Longrightarrow> rg \<noteq> [] \<Longrightarrow> first_pm pm = Some f \<Longrightarrow> last_pm pm = Some l \<Longrightarrow>
   getNextAvailable pm c =
     (case scan_pool f l (pool pm) of
        Some x \<Rightarrow> (Inr (Some x), pm\<lparr>pool := (pool pm)(pool_key (Some x) \<mapsto> Some c)\<rparr>)
      | None \<Rightarrow> (Inl (ExhaustedRange rg), pm))"
  by (simp add: getNextAvailable_def)

lemma getNextAvailable_lowest:
  assumes "range_pm pm = Some rg" "rg \<noteq> []" "in_range pm q" "port_free pm q"
    and "\<forall>r. in_range pm r \<and> r < q \<longrightarrow> \<not> port_free pm r"
  shows "getNextAvailable pm c =
           (Inr (Some q), pm\<lparr>pool := (pool pm)(pool_key (Some q) \<mapsto> Some c)\<rparr>)"
proof -
  from \<open>in_range pm q\<close> obtain f l where fl: "first_pm pm = Some f" "last_pm pm = Some l"
    and q: "f \<le> q" "q \<le> l"
    by (auto simp: in_range_def split: option.splits)
  have "\<forall>r. f \<le> r \<and> r < q \<longrightarrow> pool pm (pool_key (Some r)) \<noteq> Some None"
    using assms(5) fl q by (auto simp: in_range_def port_free_def)
  with q assms(4) have "scan_pool f l (pool pm) = Some q"
    by (intro scan_pool_least) (simp_all add: port_free_def)
  with assms(1,2) fl show ?thesis by (simp add: getNextAvailable_scan)
qed

lemma getNextAvailable_exhausted:
  assumes "range_pm pm = Some rg" "rg \<noteq> []"
    and "\<forall>r. in_range pm r \<longrightarrow> \<not> port_free pm r"
  shows "getNextAvailable pm c = (Inl (ExhaustedRange rg), pm)"
proof (cases "\<exists>f l. first_pm pm = Some f \<and> last_pm pm = Some l")
  case True
  then obtain f l where fl: "first_pm pm = Some f" "last_pm pm = Some l" by blast
  have "scan_pool f l (pool pm) = None"
    using assms(3) fl by (auto simp: scan_pool_None in_range_def port_free_def)
  with assms(1,2) fl show ?thesis by (simp add: getNextAvailable_scan)
next
  case False
  with assms(1,2) show ?thesis
    by (auto simp: getNextAvailable_def split: option.splits)
qed

lemma getNextAvailable_cases:
  "(\<exists>q. fst (getNextAvailable pm c) = Inr (Some q) \<and> in_range pm q \<and> \<not> no_range pm \<and>
        snd (getNextAvailable pm c) = pm\<lparr>pool := (pool pm)(pool_key (Some q) \<mapsto> Some c)\<rparr>)
   \<or> ((\<forall>q. fst (getNextAvailable pm c) \<noteq> Inr (Some q)) \<and> snd (getNextAvailable pm c) = pm)"
proof (cases "no_range pm")
  case True
  then show ?thesis by (simp add: getNextAvailable_unconfigured)
next
  case False
  then obtain rg where rg: "range_pm pm = Some rg" "rg \<noteq> []"
    by (auto simp: no_range_def split: option.splits)
  show ?thesis
  proof (cases "\<exists>f l. first_pm pm = Some f \<and> last_pm pm = Some l")
    case True
    then obtain f l where fl: "first_pm pm = Some f" "last_pm pm = Some l" by blast
    show ?thesis
    proof (cases "scan_pool f l (pool pm)")
      case None
      with rg fl show ?thesis by (simp add: getNextAvailable_scan)
    next
      case (Some q)
      from scan_pool_Some [OF Some] fl have "in_range pm q" by (simp add: in_range_def)
      with rg fl Some False show ?thesis by (simp add: getNextAvailable_scan)
    qed
  next
    case F: False
    with rg show ?thesis by (auto simp: getNextAvailable_def split: option.splits)
  qed
qed

lemma release_fields [simp]:
  "range_pm (release pm p) = range_pm pm"
  "first_pm (release pm p) = first_pm pm"
  "last_pm (release pm p) = last_pm pm"
  by (simp_all add: release_def)

lemma getNextAvailable_fields [simp]:
  "range_pm (snd (getNextAvailable pm c)) = range_pm pm"
  "first_pm (snd (getNextAvailable pm c)) = first_pm pm"
  "last_pm (snd (getNextAvailable pm c)) = last_pm pm"
  using getNextAvailable_cases [of pm c] by auto

lemma exec_ops_fields [simp]:
  "range_pm (exec_ops pm ops) = range_pm pm"
  "first_pm (exec_ops pm ops) = first_pm pm"
  "last_pm (exec_ops pm ops) = last_pm pm"
  by (induction pm ops rule: exec_ops.induct) simp_all

lemma in_range_release [simp]: "in_range (release pm p) = in_range pm"
  by (simp add: in_range_def fun_eq_iff)

lemma in_range_exec_ops [simp]: "in_range (exec_ops pm ops) = in_range pm"
  by (simp add: in_range_def fun_eq_iff)

lemma no_range_release [simp]: "no_range (release pm p) = no_range pm"
  by (simp add: no_range_def)

lemma release_idem: "release (release pm p) p = release pm p"
  by (simp add: release_def)

lemma release_free_same: "port_free pm q \<Longrightarrow> release pm (Some q) = pm"
  by (simp add: release_def port_free_def fun_upd_idem)

lemma pm_agree_refl: "pm_agree pm pm"
  by (simp add: pm_agree_def)

lemma pm_agree_in_range: "pm_agree pm pm' \<Longrightarrow> in_range pm' = in_range pm"
  by (simp add: pm_agree_def in_range_def fun_eq_iff)

lemma pm_agree_no_range: "pm_agree pm pm' \<Longrightarrow> no_range pm' = no_range pm"
  by (simp add: pm_agree_def no_range_def)

lemma pm_agree_release_out:
  "p = None \<or> (\<exists>q. p = Some q \<and> \<not> in_range pm q) \<Longrightarrow> pm_agree pm (release pm p)"
  by (auto simp: pm_agree_def release_def)

lemma pm_agree_release:
  "pm_agree pm pm' \<Longrightarrow> pm_agree (release pm p) (release pm' p)"
  unfolding pm_agree_def
  by (auto simp: release_def no_range_def in_range_def split: option.splits)

lemma pm_agree_getNextAvailable:
  assumes "pm_agree pm pm'"
  shows "fst (getNextAvailable pm c) = fst (getNextAvailable pm' c) \<and>
         pm_agree (snd (getNextAvailable pm c)) (snd (getNextAvailable pm' c))"
proof (cases "no_range pm")
  case True
  with assms pm_agree_no_range [OF assms] show ?thesis
    by (simp add: getNextAvailable_unconfigured)
next
  case False
  then obtain rg where rg: "range_pm pm = Some rg" "rg \<noteq> []"
    by (auto simp: no_range_def split: option.splits)
  with assms have rg': "range_pm pm' = Some rg" by (simp add: pm_agree_def)
  show ?thesis
  proof (cases "\<exists>f l. first_pm pm = Some f \<and> last_pm pm = Some l")
    case True
    then obtain f l where fl: "first_pm pm = Some f" "last_pm pm = Some l" by blast
    with assms have fl': "first_pm pm' = Some f" "last_pm pm' = Some l"
      by (simp_all add: pm_agree_def)
    from assms fl have "\<forall>r. f \<le> r \<and> r \<le> l \<longrightarrow>
        pool pm (pool_key (Some r)) = pool pm' (pool_key (Some r))"
      by (simp add: pm_agree_def in_range_def)
    then have sc: "scan_pool f l (pool pm) = scan_pool f l (pool pm')"
      by (rule scan_pool_cong)
    show ?thesis
    proof (cases "scan_pool f l (pool pm)")
      case None
      moreover from None sc have "scan_pool f l (pool pm') = None" by simp
      ultimately show ?thesis
        using rg rg' fl fl' assms by (simp add: getNextAvailable_scan)
    next
      case (Some q)
      moreover from Some sc have "scan_pool f l (pool pm') = Some q" by simp
      ultimately show ?thesis
        using rg rg' fl fl' assms
        by (simp add: getNextAvailable_scan) (auto simp: pm_agree_def in_range_def)
    qed
  next
    case F: False
    with assms have "\<not> (\<exists>f l. first_pm pm' = Some f \<and> last_pm pm' = Some l)"
      by (simp add: pm_agree_def)
    with F rg rg' assms show ?thesis
      by (auto simp: getNextAvailable_def split: option.splits)
  qed
qed

lemma pm_agree_run_ops:
  "pm_agree pm pm' \<Longrightarrow> run_ops pm ops = run_ops pm' ops"
proof (induction ops arbitrary: pm pm')
  case Nil
  show ?case by simp
next
  case (Cons x ops)
  show ?case
  proof (cases x)
    case (Acquire c)
    from pm_agree_getNextAvailable [OF Cons.prems, of c] Cons.IH Acquire
    show ?thesis by simp
  next
    case (Release p)
    from pm_agree_release [OF Cons.prems, of p] Cons.IH Release
    show ?thesis by simp
  qed
qed

lemma port_free_release: "port_free pm q \<Longrightarrow> port_free (release pm p) q"
  by (simp add: port_free_def release_def)

lemma port_free_exec_ops:
  "port_free pm q \<Longrightarrow> Inr (Some q) \<notin> set (run_ops pm ops) \<Longrightarrow> port_free (exec_ops pm ops) q"
proof (induction ops arbitrary: pm)
  case Nil
  then show ?case by simp
next
  case (Cons x ops)
  show ?case
  proof (cases x)
    case (Acquire c)
    with Cons.prems have ne: "fst (getNextAvailable pm c) \<noteq> Inr (Some q)"
      and rest: "Inr (Some q) \<notin> set (run_ops (snd (getNextAvailable pm c)) ops)"
      by auto
    from getNextAvailable_cases [of pm c] ne Cons.prems(1)
    have "port_free (snd (getNextAvailable pm c)) q"
      by (auto simp: port_free_def)
    from Cons.IH [OF this rest] Acquire show ?thesis by simp
  next
    case (Release p)
    with Cons.prems have rest: "Inr (Some q) \<notin> set (run_ops (release pm p) ops)" by simp
    from Cons.IH [OF port_free_release [OF Cons.prems(1)] rest] Release
    show ?thesis by simp
  qed
qed

lemma new_PortManager_all_free:
  "new_PortManager opt = Inr pm \<Longrightarrow> in_range pm q \<Longrightarrow> port_free pm q"
  by (auto simp: new_PortManager_def initializePool_def in_range_def port_free_def
        fill_pool_apply Let_def split: option.splits if_splits)

lemma not_digit_colon: "\<not> is_digit (CHR '':'')"
  by (simp add: is_digit_def digit_chars_def)

lemma range_regex_test_append:
  assumes "a \<noteq> []" "b \<noteq> []" "list_all is_digit a" "list_all is_digit b"
  shows "range_regex_test (a @ CHR '':'' # b)"
proof -
  from assms(3) have "takeWhile is_digit (a @ CHR '':'' # b) = a"
    by (simp add: takeWhile_append2 list_all_iff not_digit_colon)
  moreover from assms(3) have "dropWhile is_digit (a @ CHR '':'' # b) = CHR '':'' # b"
    by (simp add: dropWhile_append2 list_all_iff not_digit_colon)
  ultimately show ?thesis using assms by (simp add: range_regex_test_def)
qed

lemma split_colon_no_colon: "CHR '':'' \<notin> set s \<Longrightarrow> split_colon s = [s]"
  by (induction s) auto

lemma split_colon_append:
  "CHR '':'' \<notin> set a \<Longrightarrow> split_colon (a @ CHR '':'' # b) = a # split_colon b"
  by (induction a) auto

lemma digits_no_colon: "list_all is_digit a \<Longrightarrow> CHR '':'' \<notin> set a"
  using not_digit_colon by (auto simp: list_all_iff)

lemma split_colon_range:
  "list_all is_digit a \<Longrightarrow> list_all is_digit b \<Longrightarrow> split_colon (a @ CHR '':'' # b) = [a, b]"
  by (simp add: split_colon_append split_colon_no_colon digits_no_colon)

lemmas eval_defs = new_PortManager_def initializePool_def range_regex_test_def is_digit_def
  digit_chars_def parseInt_def digit_val_def getRange_def getFirst_def getLast_def no_range_def
  nth_opt_def Let_def

text \<open>
  Claim C8, as amended. Constructed with an options object that carries no range, or
  the empty string (which \<^verbatim>\<open>!this.range\<close> treats alike), the allocator's accessors
  all return \<^verbatim>\<open>null\<close>, \<open>release\<close> changes nothing and \<open>getNextAvailable\<close>
  returns \<^verbatim>\<open>undefined\<close> and changes nothing. Constructed with a non-empty string
  that does not match \<^verbatim>\<open>^[0-9]+:[0-9]+$\<close> it fails with BadRangeExpression; with
  two numerals below \<open>2^53\<close> (where the runtime's numbers are exact) of which the
  first is the greater, with BadRangeExpressionMinGtMax; and with \<^verbatim>\<open>10:20\<close> the
  accessors return \<^verbatim>\<open>10:20\<close>, 10 and 20.
\<close>

theorem new_PortManager_construction:
  "(\<exists>pm. new_PortManager (Some \<lparr>opt_range = None\<rparr>) = Inr pm \<and>
         getRange pm = None \<and> getFirst pm = None \<and> getLast pm = None \<and>
         (\<forall>p. release pm p = pm) \<and> (\<forall>c. getNextAvailable pm c = (Inr None, pm))) \<and>
   (\<exists>pm. new_PortManager (Some \<lparr>opt_range = Some []\<rparr>) = Inr pm \<and>
         getRange pm = None \<and> getFirst pm = None \<and> getLast pm = None \<and>
         (\<forall>p. release pm p = pm) \<and> (\<forall>c. getNextAvailable pm c = (Inr None, pm))) \<and>
   (r \<noteq> [] \<and> \<not> range_regex_test r \<longrightarrow>
      new_PortManager (Some \<lparr>opt_range = Some r\<rparr>) = Inl (BadRangeExpression r)) \<and>
   (a \<noteq> [] \<and> b \<noteq> [] \<and> list_all is_digit a \<and> list_all is_digit b \<and>
    parseInt a < 2 ^ 53 \<and> parseInt b < 2 ^ 53 \<and> parseInt a > parseInt b \<longrightarrow>
      new_PortManager (Some \<lparr>opt_range = Some (a @ '':'' @ b)\<rparr>) =
        Inl (BadRangeExpressionMinGtMax (a @ '':'' @ b))) \<and>
   (\<exists>pm. new_PortManager (Some \<lparr>opt_range = Some ''10:20''\<rparr>) = Inr pm \<and>
         getRange pm = Some ''10:20'' \<and> getFirst pm = Some 10 \<and> getLast pm = Some 20)"
proof (intro conjI impI)
  show "\<exists>pm. new_PortManager (Some \<lparr>opt_range = None\<rparr>) = Inr pm \<and>
         getRange pm = None \<and> getFirst pm = None \<and> getLast pm = None \<and>
         (\<forall>p. release pm p = pm) \<and> (\<forall>c. getNextAvailable pm c = (Inr None, pm))"
    by (simp add: new_PortManager_def initializePool_def getRange_def getFirst_def
          getLast_def no_range_def release_def getNextAvailable_def)
  show "\<exists>pm. new_PortManager (Some \<lparr>opt_range = Some []\<rparr>) = Inr pm \<and>
         getRange pm = None \<and> getFirst pm = None \<and> getLast pm = None \<and>
         (\<forall>p. release pm p = pm) \<and> (\<forall>c. getNextAvailable pm c = (Inr None, pm))"
    by (simp add: new_PortManager_def initializePool_def getRange_def getFirst_def
          getLast_def no_range_def release_def getNextAvailable_def)
next
  assume "r \<noteq> [] \<and> \<not> range_regex_test r"
  then show "new_PortManager (Some \<lparr>opt_range = Some r\<rparr>) = Inl (BadRangeExpression r)"
    by (simp add: new_PortManager_def initializePool_def)
next
  assume h: "a \<noteq> [] \<and> b \<noteq> [] \<and> list_all is_digit a \<and> list_all is_digit b \<and>
    parseInt a < 2 ^ 53 \<and> parseInt b < 2 ^ 53 \<and> parseInt a > parseInt b"
  then have "range_regex_test (a @ CHR '':'' # b)" by (simp add: range_regex_test_append)
  moreover from h have "split_colon (a @ CHR '':'' # b) = [a, b]" by (simp add: split_colon_range)
  ultimately show "new_PortManager (Some \<lparr>opt_range = Some (a @ '':'' @ b)\<rparr>) =
        Inl (BadRangeExpressionMinGtMax (a @ '':'' @ b))"
    using h by (simp add: new_PortManager_def initializePool_def nth_opt_def)
next
  show "\<exists>pm. new_PortManager (Some \<lparr>opt_range = Some ''10:20''\<rparr>) = Inr pm \<and>
         getRange pm = Some ''10:20'' \<and> getFirst pm = Some 10 \<and> getLast pm = Some 20"
    by (simp add: eval_defs)
qed

text \<open>
  Witness for C8: the two failing constructions of the repository's tests.
\<close>

theorem new_PortManager_construction_witness:
  "new_PortManager (Some \<lparr>opt_range = Some ''a1020''\<rparr>) = Inl (BadRangeExpression ''a1020'') \<and>
   new_PortManager (Some \<lparr>opt_range = Some ''20:10''\<rparr>) = Inl (BadRangeExpressionMinGtMax ''20:10'')"
  using new_PortManager_construction [of "''a1020''" "''20''" "''10''"]
  by (simp add: range_regex_test_def is_digit_def digit_chars_def parseInt_def digit_val_def)

text \<open>
  Counterexample to C8 as stated: the empty string does not match the expression,
  yet the constructor returns an allocator (an unconfigured one) instead of failing.
\<close>

theorem new_PortManager_empty_string_counterexample:
  "\<not> range_regex_test [] \<and>
   new_PortManager (Some \<lparr>opt_range = Some []\<rparr>) =
     Inr \<lparr>range_pm = Some [], first_pm = None, last_pm = None, pool = Map.empty\<rparr>"
  by (simp add: new_PortManager_def initializePool_def range_regex_test_def)

lemma scenario_S2_eval:
  "(case new_PortManager (Some \<lparr>opt_range = Some ''10:12''\<rparr>) of
      Inl e \<Rightarrow> False
    | Inr pm \<Rightarrow>
     run_ops pm [Acquire ''a'', Acquire ''b'', Acquire ''c'', Acquire ''d'',
                 Release (Some 11), Acquire ''bb'',
                 Release (Some 10), Release (Some 12), Acquire ''cc'', Acquire ''dd''] =
       [Inr (Some 10), Inr (Some 11), Inr (Some 12), Inl (ExhaustedRange ''10:12''),
        Inr (Some 11), Inr (Some 10), Inr (Some 12)])"
  by code_simp

text \<open>
  Claim C7. An unconfigured allocator returns the sentinel \<^verbatim>\<open>undefined\<close> and keeps no
  books. A configured one returns the lowest free port of its range and marks it
  owned by the caller's id, and fails with ExhaustedRange, unchanged, when no port of
  the range is free. With range \<^verbatim>\<open>10:12\<close>: acquires for a, b, c return 10, 11, 12; a
  fourth fails; after \<open>release 11\<close> an acquire returns 11; after \<open>release 10\<close> and
  \<open>release 12\<close> two acquires return 10, then 12.
\<close>

theorem getNextAvailable_lowest_free:
  "(no_range pm \<longrightarrow> getNextAvailable pm c = (Inr None, pm)) \<and>
   (range_pm pm = Some rg \<and> rg \<noteq> [] \<and> in_range pm q \<and> port_free pm q \<and>
    (\<forall>r. in_range pm r \<and> r < q \<longrightarrow> \<not> port_free pm r) \<longrightarrow>
      getNextAvailable pm c =
        (Inr (Some q), pm\<lparr>pool := (pool pm)(pool_key (Some q) \<mapsto> Some c)\<rparr>) \<and>
      port_owner (snd (getNextAvailable pm c)) q = Some c) \<and>
   (range_pm pm = Some rg \<and> rg \<noteq> [] \<and> (\<forall>r. in_range pm r \<longrightarrow> \<not> port_free pm r) \<longrightarrow>
      getNextAvailable pm c = (Inl (ExhaustedRange rg), pm)) \<and>
   (\<exists>pm0. new_PortManager (Some \<lparr>opt_range = Some ''10:12''\<rparr>) = Inr pm0 \<and>
      run_ops pm0 [Acquire ''a'', Acquire ''b'', Acquire ''c'', Acquire ''d'',
                   Release (Some 11), Acquire ''bb'',
                   Release (Some 10), Release (Some 12), Acquire ''cc'', Acquire ''dd''] =
        [Inr (Some 10), Inr (Some 11), Inr (Some 12), Inl (ExhaustedRange ''10:12''),
         Inr (Some 11), Inr (Some 10), Inr (Some 12)])"
proof (intro conjI impI)
  assume "no_range pm"
  then show "getNextAvailable pm c = (Inr None, pm)"
    by (rule getNextAvailable_unconfigured)
next
  assume h: "range_pm pm = Some rg \<and> rg \<noteq> [] \<and> in_range pm q \<and> port_free pm q \<and>
    (\<forall>r. in_range pm r \<and> r < q \<longrightarrow> \<not> port_free pm r)"
  then show low: "getNextAvailable pm c =
        (Inr (Some q), pm\<lparr>pool := (pool pm)(pool_key (Some q) \<mapsto> Some c)\<rparr>)"
    by (intro getNextAvailable_lowest [of pm rg]) simp_all
  show "port_owner (snd (getNextAvailable pm c)) q = Some c"
    by (simp add: low port_owner_def)
next
  assume "range_pm pm = Some rg \<and> rg \<noteq> [] \<and> (\<forall>r. in_range pm r \<longrightarrow> \<not> port_free pm r)"
  then show "getNextAvailable pm c = (Inl (ExhaustedRange rg), pm)"
    by (intro getNextAvailable_exhausted) simp_all
next
  show "\<exists>pm0. new_PortManager (Some \<lparr>opt_range = Some ''10:12''\<rparr>) = Inr pm0 \<and>
      run_ops pm0 [Acquire ''a'', Acquire ''b'', Acquire ''c'', Acquire ''d'',
                   Release (Some 11), Acquire ''bb'',
                   Release (Some 10), Release (Some 12), Acquire ''cc'', Acquire ''dd''] =
        [Inr (Some 10), Inr (Some 11), Inr (Some 12), Inl (ExhaustedRange ''10:12''),
         Inr (Some 11), Inr (Some 10), Inr (Some 12)]"
    using scenario_S2_eval by (cases "new_PortManager (Some \<lparr>opt_range = Some ''10:12''\<rparr>)") simp_all
qed

lemma key10: "pool_key (Some 10) = ''_10''" by code_simp
lemma key11: "pool_key (Some 11) = ''_11''" by code_simp
lemma key12: "pool_key (Some 12) = ''_12''" by code_simp

text \<open>
  Witness for C7: one allocator with a lowest free port, one exhausted, one
  unconfigured.
\<close>

theorem getNextAvailable_lowest_free_witness:
  "getNextAvailable
     \<lparr>range_pm = Some ''10:12'', first_pm = Some 10, last_pm = Some 12,
      pool = [''_10'' \<mapsto> Some ''a'', ''_11'' \<mapsto> None, ''_12'' \<mapsto> None]\<rparr> ''b'' =
     (Inr (Some 11),
      \<lparr>range_pm = Some ''10:12'', first_pm = Some 10, last_pm = Some 12,
       pool = [''_10'' \<mapsto> Some ''a'', ''_11'' \<mapsto> Some ''b'', ''_12'' \<mapsto> None]\<rparr>) \<and>
   getNextAvailable
     \<lparr>range_pm = Some ''10:10'', first_pm = Some 10, last_pm = Some 10,
      pool = [''_10'' \<mapsto> Some ''a'']\<rparr> ''b'' =
     (Inl (ExhaustedRange ''10:10''),
      \<lparr>range_pm = Some ''10:10'', first_pm = Some 10, last_pm = Some 10,
       pool = [''_10'' \<mapsto> Some ''a'']\<rparr>) \<and>
   getNextAvailable
     \<lparr>range_pm = None, first_pm = None, last_pm = None, pool = Map.empty\<rparr> ''b'' =
     (Inr None, \<lparr>range_pm = None, first_pm = None, last_pm = None, pool = Map.empty\<rparr>)"
proof (intro conjI)
  let ?pm = "\<lparr>range_pm = Some ''10:12'', first_pm = Some 10, last_pm = Some 12,
      pool = [''_10'' \<mapsto> Some ''a'', ''_11'' \<mapsto> None, ''_12'' \<mapsto> None]\<rparr>"
  have "\<forall>r. in_range ?pm r \<and> r < 11 \<longrightarrow> \<not> port_free ?pm r"
  proof (intro allI impI)
    fix r assume "in_range ?pm r \<and> r < 11"
    then have "r = 10" by (simp add: in_range_def)
    then show "\<not> port_free ?pm r" by (simp add: port_free_def key10)
  qed
  moreover have "in_range ?pm 11" by (simp add: in_range_def)
  moreover have "port_free ?pm 11" by (simp add: port_free_def key11)
  ultimately show "getNextAvailable ?pm ''b'' =
     (Inr (Some 11),
      \<lparr>range_pm = Some ''10:12'', first_pm = Some 10, last_pm = Some 12,
       pool = [''_10'' \<mapsto> Some ''a'', ''_11'' \<mapsto> Some ''b'', ''_12'' \<mapsto> None]\<rparr>)"
    using getNextAvailable_lowest_free [of ?pm "''b''" "''10:12''" 11]
    by (simp add: key11 fun_upd_twist)
next
  let ?pm = "\<lparr>range_pm = Some ''10:10'', first_pm = Some 10, last_pm = Some 10,
      pool = [''_10'' \<mapsto> Some ''a'']\<rparr>"
  have "\<forall>r. in_range ?pm r \<longrightarrow> \<not> port_free ?pm r"
  proof (intro allI impI)
    fix r assume "in_range ?pm r"
    then have "r = 10" by (simp add: in_range_def)
    then show "\<not> port_free ?pm r" by (simp add: port_free_def key10)
  qed
  then show "getNextAvailable ?pm ''b'' = (Inl (ExhaustedRange ''10:10''), ?pm)"
    using getNextAvailable_lowest_free [of ?pm "''b''" "''10:10''" 0] by simp
next
  let ?pm = "\<lparr>range_pm = None, first_pm = None, last_pm = None, pool = Map.empty\<rparr>"
  show "getNextAvailable ?pm ''b'' = (Inr None, ?pm)"
    using getNextAvailable_lowest_free [of ?pm "''b''" "[]" 0] by (simp add: no_range_def)
qed

lemma accessors_release:
  "getRange (release pm p) = getRange pm"
  "getFirst (release pm p) = getFirst pm"
  "getLast (release pm p) = getLast pm"
  by (simp_all add: getRange_def getFirst_def getLast_def)

text \<open>
  Claim C9. \<open>release\<close> is idempotent. Releasing \<^verbatim>\<open>undefined\<close>, a port outside
  \<open>[first, last]\<close> or a port that is already free changes nothing a caller can
  see: the accessors and every later \<open>getNextAvailable\<close> return what they would
  have returned without it. So does releasing a port that no \<open>getNextAvailable\<close>
  has returned since the allocator was constructed.
\<close>

theorem release_is_noop:
  "release (release pm p) p = release pm p \<and>
   (p = None \<or> (\<exists>q. p = Some q \<and> (\<not> in_range pm q \<or> port_free pm q)) \<longrightarrow>
      run_ops (release pm p) ops = run_ops pm ops \<and>
      getRange (release pm p) = getRange pm \<and>
      getFirst (release pm p) = getFirst pm \<and>
      getLast (release pm p) = getLast pm) \<and>
   (new_PortManager opt = Inr pm0 \<and> Inr (Some q) \<notin> set (run_ops pm0 hist) \<longrightarrow>
      run_ops (release (exec_ops pm0 hist) (Some q)) ops = run_ops (exec_ops pm0 hist) ops)"
proof (intro conjI impI)
  show "release (release pm p) p = release pm p" by (rule release_idem)
next
  assume h: "p = None \<or> (\<exists>q. p = Some q \<and> (\<not> in_range pm q \<or> port_free pm q))"
  show "run_ops (release pm p) ops = run_ops pm ops"
  proof (cases "\<exists>q. p = Some q \<and> port_free pm q")
    case True
    then show ?thesis by (auto simp: release_free_same)
  next
    case False
    with h have "p = None \<or> (\<exists>q. p = Some q \<and> \<not> in_range pm q)" by auto
    then have "pm_agree pm (release pm p)" by (rule pm_agree_release_out)
    then show ?thesis by (rule pm_agree_run_ops [symmetric])
  qed
next
  assume h: "new_PortManager opt = Inr pm0 \<and> Inr (Some q) \<notin> set (run_ops pm0 hist)"
  let ?pm = "exec_ops pm0 hist"
  show "run_ops (release ?pm (Some q)) ops = run_ops ?pm ops"
  proof (cases "in_range pm0 q")
    case True
    with h have "port_free pm0 q" by (auto intro: new_PortManager_all_free)
    with h have "port_free ?pm q" by (auto intro: port_free_exec_ops)
    then show ?thesis by (simp add: release_free_same)
  next
    case False
    then have "\<not> in_range ?pm q" by simp
    then have "pm_agree ?pm (release ?pm (Some q))" by (intro pm_agree_release_out) simp
    then show ?thesis by (rule pm_agree_run_ops [symmetric])
  qed
qed (simp_all add: accessors_release)

lemma witness_hist:
  "run_ops \<lparr>range_pm = Some ''10:12'', first_pm = Some 10, last_pm = Some 12,
            pool = fill_pool 10 12 Map.empty\<rparr> [Acquire ''a''] = [Inr (Some 10)]"
  by code_simp

text \<open>
  Witness for C9: releasing port 99 of range \<^verbatim>\<open>10:12\<close>, and releasing port 11 when
  only port 10 has been acquired.
\<close>

theorem release_is_noop_witness:
  "run_ops (release \<lparr>range_pm = Some ''10:12'', first_pm = Some 10, last_pm = Some 12,
                     pool = [''_10'' \<mapsto> Some ''a'', ''_11'' \<mapsto> None, ''_12'' \<mapsto> None]\<rparr> (Some 99))
           [Acquire ''b'', Acquire ''c'', Acquire ''d''] =
   run_ops \<lparr>range_pm = Some ''10:12'', first_pm = Some 10, last_pm = Some 12,
            pool = [''_10'' \<mapsto> Some ''a'', ''_11'' \<mapsto> None, ''_12'' \<mapsto> None]\<rparr>
           [Acquire ''b'', Acquire ''c'', Acquire ''d''] \<and>
   run_ops (release (exec_ops \<lparr>range_pm = Some ''10:12'', first_pm = Some 10, last_pm = Some 12,
                                pool = fill_pool 10 12 Map.empty\<rparr> [Acquire ''a'']) (Some 11))
           [Acquire ''b''] =
   run_ops (exec_ops \<lparr>range_pm = Some ''10:12'', first_pm = Some 10, last_pm = Some 12,
                       pool = fill_pool 10 12 Map.empty\<rparr> [Acquire ''a''])
           [Acquire ''b'']"
proof (intro conjI)
  let ?pm = "\<lparr>range_pm = Some ''10:12'', first_pm = Some 10, last_pm = Some 12,
                     pool = [''_10'' \<mapsto> Some ''a'', ''_11'' \<mapsto> None, ''_12'' \<mapsto> None]\<rparr>"
  have "\<not> in_range ?pm 99" by (simp add: in_range_def)
  then show "run_ops (release ?pm (Some 99)) [Acquire ''b'', Acquire ''c'', Acquire ''d''] =
    run_ops ?pm [Acquire ''b'', Acquire ''c'', Acquire ''d'']"
    using release_is_noop [where pm = ?pm and p = "Some 99"
        and ops = "[Acquire ''b'', Acquire ''c'', Acquire ''d'']"]
    by (simp del: run_ops.simps)
next
  let ?pm0 = "\<lparr>range_pm = Some ''10:12'', first_pm = Some 10, last_pm = Some 12,
                pool = fill_pool 10 12 Map.empty\<rparr>"
  have "new_PortManager (Some \<lparr>opt_range = Some ''10:12''\<rparr>) = Inr ?pm0"
    by (simp add: eval_defs)
  moreover have "Inr (Some 11) \<notin> set (run_ops ?pm0 [Acquire ''a''])"
    unfolding witness_hist by simp
  ultimately show "run_ops (release (exec_ops ?pm0 [Acquire ''a'']) (Some 11)) [Acquire ''b''] =
    run_ops (exec_ops ?pm0 [Acquire ''a'']) [Acquire ''b'']"
    using release_is_noop [where opt = "Some \<lparr>opt_range = Some ''10:12''\<rparr>" and ?pm0.0 = ?pm0
        and q = 11 and hist = "[Acquire ''a'']" and ops = "[Acquire ''b'']"]
    by (simp del: run_ops.simps exec_ops.simps)
qed

section \<open>Properties of the tunnel agent\<close>



lemma agent_step_closed_invariant:
  "closed a \<and> waitingCreateConn a = [] \<Longrightarrow>
   closed (snd (agent_step (pm, a) x)) \<and> waitingCreateConn (snd (agent_step (pm, a) x)) = []"
  by (cases x)
     (auto simp: listen_def onClose_def onConnection_def run_timer_def socket_close_def
        socket_error_def createConnection_def destroy_def Let_def
        split: option.splits sum.splits prod.splits list.splits)

lemma agent_steps_closed_invariant:
  "closed (snd s) \<and> waitingCreateConn (snd s) = [] \<Longrightarrow>
   closed (snd (foldl agent_step s ops)) \<and> waitingCreateConn (snd (foldl agent_step s ops)) = []"
proof (induction ops arbitrary: s)
  case Nil
  then show ?case by simp
next
  case (Cons x ops)
  obtain pm a where s: "s = (pm, a)" by (cases s)
  with Cons.prems agent_step_closed_invariant [of a pm x]
  have "closed (snd (agent_step s x)) \<and> waitingCreateConn (snd (agent_step s x)) = []"
    by simp
  from Cons.IH [OF this] show ?case by simp
qed

lemma createConnection_closed:
  "closed a \<Longrightarrow>
   createConnection a cb = a\<lparr>effects := effects a @ [Callback cb (Inl AgentClosed)]\<rparr>"
  by (simp add: createConnection_def)

text \<open>
  Claim C6. When the acceptor closes, the agent is marked closed, every queued
  waiter's callback is called with AgentClosed, in order, the queue is left empty
  and \<^verbatim>\<open>end\<close> is emitted. After any further sequence of calls and events the agent is
  still closed with an empty queue, and \<open>createConnection\<close> calls its callback with
  AgentClosed at once and queues nothing.
\<close>

theorem onClose_then_always_closed:
  "closed (onClose a) \<and>
   waitingCreateConn (onClose a) = [] \<and>
   effects (onClose a) =
     effects a @ map (\<lambda>conn. Callback conn (Inl AgentClosed)) (waitingCreateConn a)
       @ [Emit ''end''] \<and>
   closed (snd (foldl agent_step (pm, onClose a) ops)) \<and>
   waitingCreateConn (snd (foldl agent_step (pm, onClose a) ops)) = [] \<and>
   createConnection (snd (foldl agent_step (pm, onClose a) ops)) cb =
     (snd (foldl agent_step (pm, onClose a) ops))
       \<lparr>effects := effects (snd (foldl agent_step (pm, onClose a) ops))
                     @ [Callback cb (Inl AgentClosed)]\<rparr>"
proof -
  have init: "closed (snd (pm, onClose a)) \<and> waitingCreateConn (snd (pm, onClose a)) = []"
    by (simp add: onClose_def)
  from agent_steps_closed_invariant [OF init, of ops]
  have inv: "closed (snd (foldl agent_step (pm, onClose a) ops)) \<and>
    waitingCreateConn (snd (foldl agent_step (pm, onClose a) ops)) = []" .
  then have "createConnection (snd (foldl agent_step (pm, onClose a) ops)) cb =
     (snd (foldl agent_step (pm, onClose a) ops))
       \<lparr>effects := effects (snd (foldl agent_step (pm, onClose a) ops))
                     @ [Callback cb (Inl AgentClosed)]\<rparr>"
    by (simp add: createConnection_closed)
  with inv show ?thesis by (simp add: onClose_def)
qed

section \<open>Properties of the client and the registry\<close>

lemma removeClient_absent: "clients m i = None \<Longrightarrow> removeClient m i = m"
  by (simp add: removeClient.simps)

lemma close_no_listener:
  "r < length (heap m) \<Longrightarrow> onCloseOnce (heap m ! r) = None \<Longrightarrow>
   close m r = m\<lparr>heap := (heap m)[r := close_self (heap m ! r)]\<rparr>"
  by (simp add: close.simps)

lemma close_self_fields [simp]:
  "graceTimeout (close_self c) = False"
  "agent (close_self c) = destroy (agent c)"
  "closeEmitted (close_self c) = closeEmitted c + 1"
  "onCloseOnce (close_self c) = None"
  "onAgentError (close_self c) = onAgentError c"
  "id_c (close_self c) = id_c c"
  "secret (close_self c) = secret c"
  by (simp_all add: close_self_def)

lemma getPort_destroy [simp]: "getPort (destroy a) = getPort a"
  by (simp add: getPort_def destroy_def)

lemma removeClient_registered:
  assumes "clients m i = Some r" "r < length (heap m)" "onCloseOnce (heap m ! r) = Some i"
  shows "removeClient m i =
           m\<lparr>portManager := release (portManager m) (getPort (agent (heap m ! r))),
             stats_tunnels := stats_tunnels m - 1,
             clients := (clients m)(i := None),
             heap := (heap m)[r := close_self (heap m ! r)]\<rparr>"
proof -
  let ?m1 = "m\<lparr>portManager := release (portManager m) (getPort (agent (heap m ! r))),
                 stats_tunnels := stats_tunnels m - 1,
                 clients := (clients m)(i := None)\<rparr>"
  let ?m2 = "?m1\<lparr>heap := (heap ?m1)[r := close_self (heap ?m1 ! r)]\<rparr>"
  from assms have "removeClient m i = close ?m1 r" by (simp add: removeClient.simps)
  also from assms have "\<dots> = removeClient ?m2 i" by (simp add: close.simps)
  also have "\<dots> = ?m2" by (rule removeClient_absent) simp
  finally show ?thesis by simp
qed

lemma close_registered:
  assumes "clients m i = Some r" "r < length (heap m)" "onCloseOnce (heap m ! r) = Some i"
  shows "close m r =
           m\<lparr>portManager := release (portManager m) (getPort (agent (heap m ! r))),
             stats_tunnels := stats_tunnels m - 1,
             clients := (clients m)(i := None),
             heap := (heap m)[r := close_self (close_self (heap m ! r))]\<rparr>"
proof -
  let ?m1 = "m\<lparr>heap := (heap m)[r := close_self (heap m ! r)]\<rparr>"
  let ?m2 = "?m1\<lparr>portManager := release (portManager ?m1) (getPort (agent (heap ?m1 ! r))),
                   stats_tunnels := stats_tunnels ?m1 - 1,
                   clients := (clients ?m1)(i := None)\<rparr>"
  from assms have "close m r = removeClient ?m1 i" by (simp add: close.simps)
  also from assms have "\<dots> = close ?m2 r" by (simp add: removeClient.simps)
  also from assms have "\<dots> = ?m2\<lparr>heap := (heap ?m2)[r := close_self (heap ?m2 ! r)]\<rparr>"
    by (intro close_no_listener) simp_all
  finally show ?thesis using assms by simp
qed

text \<open>
  Claim C1, as amended. Every call of \<open>close\<close> cancels the grace timer, destroys
  the agent and emits \<^verbatim>\<open>close\<close> once: nothing stops a second call from doing it
  again. For a session the registry holds (with its once-listener installed):
  \<open>removeClient\<close> calls \<open>close\<close> once, so \<^verbatim>\<open>close\<close> is emitted once; when the
  session closes itself, on grace-timer expiry or on an agent error, the registry's
  listener calls \<open>removeClient\<close>, which calls \<open>close\<close> again, so \<^verbatim>\<open>close\<close> is
  emitted twice and the agent destroyed twice. Either way the registry entry is gone.
\<close>

theorem close_emits_once_per_call:
  "(r < length (heap m) \<and> onCloseOnce (heap m ! r) = None \<longrightarrow>
      close m r = m\<lparr>heap := (heap m)[r := close_self (heap m ! r)]\<rparr>) \<and>
   \<not> graceTimeout (close_self c) \<and>
   agent (close_self c) = destroy (agent c) \<and>
   effects (destroy a) = effects a @ [ServerClose, AgentDestroy] \<and>
   closeEmitted (close_self c) = closeEmitted c + 1 \<and>
   (clients m i = Some r \<and> r < length (heap m) \<and> onCloseOnce (heap m ! r) = Some i \<longrightarrow>
      heap (removeClient m i) ! r = close_self (heap m ! r) \<and>
      closeEmitted (heap (removeClient m i) ! r) = closeEmitted (heap m ! r) + 1 \<and>
      clients (removeClient m i) i = None \<and>
      heap (close m r) ! r = close_self (close_self (heap m ! r)) \<and>
      closeEmitted (heap (close m r) ! r) = closeEmitted (heap m ! r) + 2 \<and>
      clients (close m r) i = None \<and>
      (graceTimeout (heap m ! r) \<longrightarrow> graceTimeout_fired m r = close m r) \<and>
      (onAgentError (heap m ! r) \<longrightarrow>
         heap (agent_error m r) ! r =
           close_self (close_self ((heap m ! r)\<lparr>onAgentError := False\<rparr>)) \<and>
         closeEmitted (heap (agent_error m r) ! r) = closeEmitted (heap m ! r) + 2 \<and>
         clients (agent_error m r) i = None))"
proof (intro conjI impI)
  assume "r < length (heap m) \<and> onCloseOnce (heap m ! r) = None"
  then show "close m r = m\<lparr>heap := (heap m)[r := close_self (heap m ! r)]\<rparr>"
    by (simp add: close_no_listener)
next
  show "effects (destroy a) = effects a @ [ServerClose, AgentDestroy]"
    by (simp add: destroy_def)
next
  assume h: "clients m i = Some r \<and> r < length (heap m) \<and> onCloseOnce (heap m ! r) = Some i"
  then have rm: "removeClient m i =
           m\<lparr>portManager := release (portManager m) (getPort (agent (heap m ! r))),
             stats_tunnels := stats_tunnels m - 1,
             clients := (clients m)(i := None),
             heap := (heap m)[r := close_self (heap m ! r)]\<rparr>"
    by (intro removeClient_registered) simp_all
  from h have cl: "close m r =
           m\<lparr>portManager := release (portManager m) (getPort (agent (heap m ! r))),
             stats_tunnels := stats_tunnels m - 1,
             clients := (clients m)(i := None),
             heap := (heap m)[r := close_self (close_self (heap m ! r))]\<rparr>"
    by (intro close_registered) simp_all
  from h show "heap (removeClient m i) ! r = close_self (heap m ! r)"
    by (simp add: rm)
  from h show "closeEmitted (heap (removeClient m i) ! r) = closeEmitted (heap m ! r) + 1"
    by (simp add: rm)
  show "clients (removeClient m i) i = None" by (simp add: rm)
  from h show "heap (close m r) ! r = close_self (close_self (heap m ! r))"
    by (simp add: cl)
  from h show "closeEmitted (heap (close m r) ! r) = closeEmitted (heap m ! r) + 2"
    by (simp add: cl)
  show "clients (close m r) i = None" by (simp add: cl)
  {
    assume "graceTimeout (heap m ! r)"
    with h show "graceTimeout_fired m r = close m r"
      by (simp add: graceTimeout_fired_def)
  }
  {
    assume e: "onAgentError (heap m ! r)"
    let ?m = "m\<lparr>heap := (heap m)[r := (heap m ! r)\<lparr>onAgentError := False\<rparr>]\<rparr>"
    from h e have ae: "agent_error m r = close ?m r" by (simp add: agent_error_def)
    from h have "close ?m r =
           ?m\<lparr>portManager := release (portManager ?m) (getPort (agent (heap ?m ! r))),
             stats_tunnels := stats_tunnels ?m - 1,
             clients := (clients ?m)(i := None),
             heap := (heap ?m)[r := close_self (close_self (heap ?m ! r))]\<rparr>"
      by (intro close_registered) simp_all
    with h ae show "heap (agent_error m r) ! r =
           close_self (close_self ((heap m ! r)\<lparr>onAgentError := False\<rparr>))"
      and "closeEmitted (heap (agent_error m r) ! r) = closeEmitted (heap m ! r) + 2"
      and "clients (agent_error m r) i = None"
      by simp_all
  }
qed simp_all

lemma registered_after_newClient:
  "clients (snd (newClient
       \<lparr>opt_cm = \<lparr>max_tcp_sockets = None, range_opt = None, secret_opt = None\<rparr>,
        heap = [], clients = Map.empty,
        portManager = \<lparr>range_pm = None, first_pm = None, last_pm = None, pool = Map.empty\<rparr>,
        stats_tunnels = 0\<rparr> (Some ''abcd'') JUndefined ''rnd'' 4000)) ''abcd'' = Some 0 \<and>
   0 < length (heap (snd (newClient
       \<lparr>opt_cm = \<lparr>max_tcp_sockets = None, range_opt = None, secret_opt = None\<rparr>,
        heap = [], clients = Map.empty,
        portManager = \<lparr>range_pm = None, first_pm = None, last_pm = None, pool = Map.empty\<rparr>,
        stats_tunnels = 0\<rparr> (Some ''abcd'') JUndefined ''rnd'' 4000))) \<and>
   onCloseOnce (heap (snd (newClient
       \<lparr>opt_cm = \<lparr>max_tcp_sockets = None, range_opt = None, secret_opt = None\<rparr>,
        heap = [], clients = Map.empty,
        portManager = \<lparr>range_pm = None, first_pm = None, last_pm = None, pool = Map.empty\<rparr>,
        stats_tunnels = 0\<rparr> (Some ''abcd'') JUndefined ''rnd'' 4000)) ! 0) = Some ''abcd'' \<and>
   graceTimeout (heap (snd (newClient
       \<lparr>opt_cm = \<lparr>max_tcp_sockets = None, range_opt = None, secret_opt = None\<rparr>,
        heap = [], clients = Map.empty,
        portManager = \<lparr>range_pm = None, first_pm = None, last_pm = None, pool = Map.empty\<rparr>,
        stats_tunnels = 0\<rparr> (Some ''abcd'') JUndefined ''rnd'' 4000)) ! 0) \<and>
   onAgentError (heap (snd (newClient
       \<lparr>opt_cm = \<lparr>max_tcp_sockets = None, range_opt = None, secret_opt = None\<rparr>,
        heap = [], clients = Map.empty,
        portManager = \<lparr>range_pm = None, first_pm = None, last_pm = None, pool = Map.empty\<rparr>,
        stats_tunnels = 0\<rparr> (Some ''abcd'') JUndefined ''rnd'' 4000)) ! 0) \<and>
   closeEmitted (heap (snd (newClient
       \<lparr>opt_cm = \<lparr>max_tcp_sockets = None, range_opt = None, secret_opt = None\<rparr>,
        heap = [], clients = Map.empty,
        portManager = \<lparr>range_pm = None, first_pm = None, last_pm = None, pool = Map.empty\<rparr>,
        stats_tunnels = 0\<rparr> (Some ''abcd'') JUndefined ''rnd'' 4000)) ! 0) = 0"
  by code_simp

lemma closed_session_facts:
  "0 < length (heap (removeClient (snd (newClient
       \<lparr>opt_cm = \<lparr>max_tcp_sockets = None, range_opt = None, secret_opt = None\<rparr>,
        heap = [], clients = Map.empty,
        portManager = \<lparr>range_pm = None, first_pm = None, last_pm = None, pool = Map.empty\<rparr>,
        stats_tunnels = 0\<rparr> (Some ''abcd'') JUndefined ''rnd'' 4000)) ''abcd'')) \<and>
   onCloseOnce (heap (removeClient (snd (newClient
       \<lparr>opt_cm = \<lparr>max_tcp_sockets = None, range_opt = None, secret_opt = None\<rparr>,
        heap = [], clients = Map.empty,
        portManager = \<lparr>range_pm = None, first_pm = None, last_pm = None, pool = Map.empty\<rparr>,
        stats_tunnels = 0\<rparr> (Some ''abcd'') JUndefined ''rnd'' 4000)) ''abcd'') ! 0) = None \<and>
   closeEmitted (heap (removeClient (snd (newClient
       \<lparr>opt_cm = \<lparr>max_tcp_sockets = None, range_opt = None, secret_opt = None\<rparr>,
        heap = [], clients = Map.empty,
        portManager = \<lparr>range_pm = None, first_pm = None, last_pm = None, pool = Map.empty\<rparr>,
        stats_tunnels = 0\<rparr> (Some ''abcd'') JUndefined ''rnd'' 4000)) ''abcd'') ! 0) = 1"
  by code_simp

text \<open>
  Witness for C1: the session a fresh registry creates for the id \<^verbatim>\<open>abcd\<close>, closed
  in each of the three ways, and closed once more after its removal.
\<close>

theorem close_emits_once_per_call_witness:
  "closeEmitted (heap (removeClient (snd (newClient
       \<lparr>opt_cm = \<lparr>max_tcp_sockets = None, range_opt = None, secret_opt = None\<rparr>,
        heap = [], clients = Map.empty,
        portManager = \<lparr>range_pm = None, first_pm = None, last_pm = None, pool = Map.empty\<rparr>,
        stats_tunnels = 0\<rparr> (Some ''abcd'') JUndefined ''rnd'' 4000)) ''abcd'') ! 0) = 1 \<and>
   closeEmitted (heap (graceTimeout_fired (snd (newClient
       \<lparr>opt_cm = \<lparr>max_tcp_sockets = None, range_opt = None, secret_opt = None\<rparr>,
        heap = [], clients = Map.empty,
        portManager = \<lparr>range_pm = None, first_pm = None, last_pm = None, pool = Map.empty\<rparr>,
        stats_tunnels = 0\<rparr> (Some ''abcd'') JUndefined ''rnd'' 4000)) 0) ! 0) = 2 \<and>
   closeEmitted (heap (agent_error (snd (newClient
       \<lparr>opt_cm = \<lparr>max_tcp_sockets = None, range_opt = None, secret_opt = None\<rparr>,
        heap = [], clients = Map.empty,
        portManager = \<lparr>range_pm = None, first_pm = None, last_pm = None, pool = Map.empty\<rparr>,
        stats_tunnels = 0\<rparr> (Some ''abcd'') JUndefined ''rnd'' 4000)) 0) ! 0) = 2 \<and>
   closeEmitted (heap (close (removeClient (snd (newClient
       \<lparr>opt_cm = \<lparr>max_tcp_sockets = None, range_opt = None, secret_opt = None\<rparr>,
        heap = [], clients = Map.empty,
        portManager = \<lparr>range_pm = None, first_pm = None, last_pm = None, pool = Map.empty\<rparr>,
        stats_tunnels = 0\<rparr> (Some ''abcd'') JUndefined ''rnd'' 4000)) ''abcd'') 0) ! 0) = 2"
proof -
  let ?m = "snd (newClient
       \<lparr>opt_cm = \<lparr>max_tcp_sockets = None, range_opt = None, secret_opt = None\<rparr>,
        heap = [], clients = Map.empty,
        portManager = \<lparr>range_pm = None, first_pm = None, last_pm = None, pool = Map.empty\<rparr>,
        stats_tunnels = 0\<rparr> (Some ''abcd'') JUndefined ''rnd'' 4000)"
  let ?m' = "removeClient ?m ''abcd''"
  note reg = registered_after_newClient
  from reg have h: "clients ?m ''abcd'' = Some 0 \<and> 0 < length (heap ?m) \<and>
      onCloseOnce (heap ?m ! 0) = Some ''abcd''"
    by blast
  from reg have g: "graceTimeout (heap ?m ! 0)" and e: "onAgentError (heap ?m ! 0)"
    and z: "closeEmitted (heap ?m ! 0) = 0"
    by blast+
  from close_emits_once_per_call [where m = ?m and i = "''abcd''" and r = 0] h g e
  have 1: "closeEmitted (heap (removeClient ?m ''abcd'') ! 0) = closeEmitted (heap ?m ! 0) + 1"
    and 2: "closeEmitted (heap (close ?m 0) ! 0) = closeEmitted (heap ?m ! 0) + 2"
    and 3: "graceTimeout_fired ?m 0 = close ?m 0"
    and 4: "closeEmitted (heap (agent_error ?m 0) ! 0) = closeEmitted (heap ?m ! 0) + 2"
    by blast+
  from closed_session_facts have h': "0 < length (heap ?m') \<and> onCloseOnce (heap ?m' ! 0) = None"
    and z': "closeEmitted (heap ?m' ! 0) = 1"
    by blast+
  from close_emits_once_per_call [where m = ?m' and r = 0 and c = "heap ?m' ! 0"] h'
  have "close ?m' 0 = ?m'\<lparr>heap := (heap ?m')[0 := close_self (heap ?m' ! 0)]\<rparr>"
    and "closeEmitted (close_self (heap ?m' ! 0)) = closeEmitted (heap ?m' ! 0) + 1"
    by blast+
  with h' z' have 5: "closeEmitted (heap (close ?m' 0) ! 0) = 2" by simp
  from 1 2 3 4 5 z show ?thesis by simp
qed

text \<open>
  Counterexample to C1 as stated: after a successful \<open>newClient\<close>, the expiry of the
  grace timer emits \<^verbatim>\<open>close\<close> twice for the one session, and calling \<open>close\<close> twice
  more makes it three times.
\<close>

theorem close_emitted_twice_counterexample:
  "(case new_ClientManager \<lparr>max_tcp_sockets = None, range_opt = None, secret_opt = None\<rparr> of
      Inl e \<Rightarrow> False
    | Inr m0 \<Rightarrow>
        (case newClient m0 (Some ''abcd'') JUndefined ''rnd'' 4000 of
           (res, m1) \<Rightarrow>
             res = Inr \<lparr>info_id = ''abcd'', info_port = 4000, info_max_conn_count = 10\<rparr> \<and>
             closeEmitted (heap m1 ! 0) = 0 \<and>
             closeEmitted (heap (graceTimeout_fired m1 0) ! 0) = 2 \<and>
             closeEmitted (heap (close (close m1 0) 0) ! 0) = 3))"
  by code_simp

text \<open>
  The counter and the map, call by call. A successful \<open>newClient\<close> that installs a
  new id, and \<open>removeClient\<close> of a session the registry holds, keep
  \<open>stats_tunnels\<close> equal to the number of entries. A failing \<open>newClient\<close> leaves
  the map as it was and the counter one lower.
\<close>

lemma newClient_success_counter:
  assumes ok: "fst (newClient m requested sec rnd osPort) = Inr info"
    and fresh: "clients m (chosen_id m requested rnd) = None"
    and fin: "finite (dom (clients m))"
    and inv: "stats_tunnels m = int (card (dom (clients m)))"
  shows "stats_tunnels (snd (newClient m requested sec rnd osPort)) =
           int (card (dom (clients (snd (newClient m requested sec rnd osPort))))) \<and>
         clients (snd (newClient m requested sec rnd osPort)) =
           (clients m)(chosen_id m requested rnd \<mapsto> length (heap m)) \<and>
         info_id info = chosen_id m requested rnd"
proof -
  define i where "i = chosen_id m requested rnd"
  from fresh have "i \<notin> dom (clients m)" by (auto simp: i_def)
  with fin have "card (insert i (dom (clients m))) = card (dom (clients m)) + 1" by simp
  with ok inv show ?thesis
    unfolding i_def [symmetric]
    by (auto simp: newClient_def Let_def i_def [symmetric] split: prod.splits sum.splits)
qed

lemma removeClient_counter:
  assumes "clients m i = Some r" "r < length (heap m)" "onCloseOnce (heap m ! r) = Some i"
    and fin: "finite (dom (clients m))"
    and inv: "stats_tunnels m = int (card (dom (clients m)))"
  shows "stats_tunnels (removeClient m i) = int (card (dom (clients (removeClient m i))))"
proof -
  from assms(1) have "i \<in> dom (clients m)" by auto
  with fin have "card (dom (clients m) - {i}) = card (dom (clients m)) - 1"
    and "card (dom (clients m)) > 0"
    by (auto simp: card_gt_0_iff)
  with inv show ?thesis
    by (simp add: removeClient_registered [OF assms(1-3)])
qed

lemma newClient_failure_general:
  assumes fail: "fst (newClient m requested sec rnd osPort) = Inl e"
    and fresh: "clients m (chosen_id m requested rnd) = None"
  shows "stats_tunnels (snd (newClient m requested sec rnd osPort)) = stats_tunnels m - 1 \<and>
         clients (snd (newClient m requested sec rnd osPort)) = clients m"
proof -
  define i where "i = chosen_id m requested rnd"
  define a where "a = new_TunnelAgent
                \<lparr>opt_clientId = i, opt_maxTcpSockets = None,
                 opt_maxSockets = Some (maxSockets m)\<rparr>"
  define c where "c = (new_Client i a sec)\<lparr>onCloseOnce := Some i\<rparr>"
  define m1 where "m1 = m\<lparr>heap := heap m @ [c], clients := (clients m)(i \<mapsto> length (heap m))\<rparr>"
  obtain res pm' a' where l: "listen (Some (portManager m1)) osPort a = (res, pm', a')"
    by (cases "listen (Some (portManager m1)) osPort a") auto
  define m2 where "m2 = m1\<lparr>heap := (heap m1)[length (heap m) := c\<lparr>agent := a'\<rparr>],
                   portManager := (case pm' of None \<Rightarrow> portManager m1 | Some x \<Rightarrow> x)\<rparr>"
  have nc: "newClient m requested sec rnd osPort =
      (case res of
         Inr p \<Rightarrow> (Inr \<lparr>info_id = i, info_port = p, info_max_conn_count = maxSockets m\<rparr>,
                   m2\<lparr>stats_tunnels := stats_tunnels m2 + 1\<rparr>)
       | Inl err \<Rightarrow> (Inl err, removeClient m2 i))"
    using l by (cases res; cases pm')
      (simp_all add: newClient_def Let_def i_def a_def c_def m1_def m2_def)
  with fail have sn: "snd (newClient m requested sec rnd osPort) = removeClient m2 i"
    by (cases res) simp_all
  have reg: "clients m2 i = Some (length (heap m))" "length (heap m) < length (heap m2)"
    "onCloseOnce (heap m2 ! length (heap m)) = Some i"
    by (simp_all add: m2_def m1_def c_def)
  have "removeClient m2 i =
           m2\<lparr>portManager := release (portManager m2) (getPort (agent (heap m2 ! length (heap m)))),
             stats_tunnels := stats_tunnels m2 - 1,
             clients := (clients m2)(i := None),
             heap := (heap m2)[length (heap m) := close_self (heap m2 ! length (heap m))]\<rparr>"
    using reg by (rule removeClient_registered)
  with sn fresh show ?thesis
    by (simp add: m2_def m1_def i_def [symmetric] fun_upd_idem)
qed

lemma newClient_failure_run:
  "(case new_ClientManager
           \<lparr>max_tcp_sockets = None, range_opt = Some ''10:10'', secret_opt = None\<rparr> of
      Inl e \<Rightarrow> False
    | Inr m0 \<Rightarrow>
        (case newClient m0 (Some ''aaaa'') JUndefined ''rnd1'' 4000 of
           (res1, m1) \<Rightarrow>
             (case newClient m1 (Some ''bbbb'') JUndefined ''rnd2'' 4000 of
                (res2, m2) \<Rightarrow>
                  (case newClient m2 (Some ''cccc'') JUndefined ''rnd3'' 4000 of
                     (res3, m3) \<Rightarrow>
                       res1 = Inr \<lparr>info_id = ''aaaa'', info_port = 10,
                                    info_max_conn_count = 10\<rparr> \<and>
                       stats_tunnels m1 = 1 \<and>
                       res2 = Inl (ExhaustedRange ''10:10'') \<and>
                       stats_tunnels m2 = 0 \<and>
                       res3 = Inl (ExhaustedRange ''10:10'') \<and>
                       stats_tunnels m3 = - 1))))"
  by code_simp

lemma newClient_failure_entries:
  "(case new_ClientManager
           \<lparr>max_tcp_sockets = None, range_opt = Some ''10:10'', secret_opt = None\<rparr> of
      Inl e \<Rightarrow> False
    | Inr m0 \<Rightarrow>
        (case newClient m0 (Some ''aaaa'') JUndefined ''rnd1'' 4000 of
           (res1, m1) \<Rightarrow>
             (case newClient m1 (Some ''bbbb'') JUndefined ''rnd2'' 4000 of
                (res2, m2) \<Rightarrow>
                  (case newClient m2 (Some ''cccc'') JUndefined ''rnd3'' 4000 of
                     (res3, m3) \<Rightarrow>
                       dom (clients m1) = {''aaaa''} \<and>
                       dom (clients m2) = {''aaaa''} \<and>
                       dom (clients m3) = {''aaaa''}))))"
  by (simp add: new_ClientManager_def eval_defs newClient_def listen_def new_TunnelAgent_def
        new_Client_def chosen_id_def hasClient_def Object_prototype_names_def
        maxSockets_def getNextAvailable_def
        fill_pool.simps scan_pool.simps pool_key_def
        string_of_nat.simps digit_char_def removeClient.simps close.simps close_self_def
        release_def getPort_def destroy_def bound_port_def Let_def DEFAULT_MAX_SOCKETS_def)

text \<open>
  Claim C3, evaluated where the code departs from it. A registry whose range holds
  the single port 10: the first \<open>newClient\<close> succeeds (one entry, counter 1); the
  second finds no port, \<open>listen\<close> rejects, and the \<^verbatim>\<open>catch\<close> branch calls
  \<open>removeClient\<close>, which decrements the counter that was never incremented for this
  client: one entry, counter 0. A third failing call leaves one entry and counter -1.
\<close>

theorem newClient_failure_counter_evaluated:
  "(case new_ClientManager
           \<lparr>max_tcp_sockets = None, range_opt = Some ''10:10'', secret_opt = None\<rparr> of
      Inl e \<Rightarrow> False
    | Inr m0 \<Rightarrow>
        (case newClient m0 (Some ''aaaa'') JUndefined ''rnd1'' 4000 of
           (res1, m1) \<Rightarrow>
             (case newClient m1 (Some ''bbbb'') JUndefined ''rnd2'' 4000 of
                (res2, m2) \<Rightarrow>
                  (case newClient m2 (Some ''cccc'') JUndefined ''rnd3'' 4000 of
                     (res3, m3) \<Rightarrow>
                       res1 = Inr \<lparr>info_id = ''aaaa'', info_port = 10,
                                    info_max_conn_count = 10\<rparr> \<and>
                       card (dom (clients m1)) = 1 \<and> stats_tunnels m1 = 1 \<and>
                       res2 = Inl (ExhaustedRange ''10:10'') \<and>
                       card (dom (clients m2)) = 1 \<and> stats_tunnels m2 = 0 \<and>
                       res3 = Inl (ExhaustedRange ''10:10'') \<and>
                       card (dom (clients m3)) = 1 \<and> stats_tunnels m3 = - 1))))"
  using newClient_failure_run newClient_failure_entries
  by (auto split: sum.splits prod.splits)

section \<open>Properties of the token comparison and the request handlers\<close>

lemma isSecurityTokenEqual_iff:
  "isSecurityTokenEqual dec c t \<longleftrightarrow>
     (\<exists>s u p p'. secret c = JString s \<and> t = JString u \<and>
        dec (remove_Bearer s) = Inr p \<and> dec (remove_Bearer u) = Inr p' \<and>
        strict_equal (optional_name p) (optional_name p'))"
  by (cases "secret c"; cases t)
     (auto simp: isSecurityTokenEqual_def decodeJWT_def split: sum.splits)

text \<open>
  Claim C4, evaluated where the code departs from it. With a stored secret and a
  bearer token that \<^verbatim>\<open>jwt.decode\<close> both rejects by returning \<^verbatim>\<open>null\<close>, the two
  optional reads of \<^verbatim>\<open>name\<close> give \<^verbatim>\<open>undefined\<close> and the comparison is true; so it
  is when one is rejected and the other decodes to a payload without a name.
\<close>

theorem isSecurityTokenEqual_undecodable_evaluated:
  "isSecurityTokenEqual (\<lambda>t. if t = ''garbage'' \<or> t = ''junk'' then Inr PNull else Inl SyntaxError)
     (new_Client ''abcd''
        (new_TunnelAgent \<lparr>opt_clientId = ''abcd'', opt_maxTcpSockets = None, opt_maxSockets = Some 10\<rparr>)
        (JString ''garbage''))
     (JString ''Bearer junk'') \<and>
   isSecurityTokenEqual
     (\<lambda>t. if t = ''garbage'' then Inr PNull
          else if t = ''nameless'' then Inr (PObject [(''sub'', VString ''bob'')])
          else Inl SyntaxError)
     (new_Client ''abcd''
        (new_TunnelAgent \<lparr>opt_clientId = ''abcd'', opt_maxTcpSockets = None, opt_maxSockets = Some 10\<rparr>)
        (JString ''garbage''))
     (JString ''Bearer nameless'')"
  by code_simp

text \<open>
  Claim C2, evaluated where the code departs from it. When the outbound request
  fails before any response, the public response is left with no headers sent and
  no status written: the \<^verbatim>\<open>error\<close> listener does nothing. After a response, an
  error changes nothing either.
\<close>

theorem handleRequest_error_evaluated:
  "handleRequest [ErrorEvent] = \<lparr>headersSent = False, statusCode = None\<rparr> \<and>
   handleRequest [ResponseEvent 200, ErrorEvent] =
     \<lparr>headersSent = True, statusCode = Some 200\<rparr>"
  by (simp add: handleRequest_def)

text \<open>
  Claim C10. In the kill handler the test of the configured secret comes first, then
  the test that the client exists, then the comparison of tokens. Without a secret
  (\<^verbatim>\<open>undefined\<close> or empty) the handler throws 403 \<^verbatim>\<open>secret is missing\<close> for every id,
  registered or not; it throws 404 only with a secret configured and an id for
  which \<open>hasClient\<close> is false, and then whatever the token is. With a secret and an
  id that reads as an inherited value the handler fails with a TypeError; with a
  client under the id it throws 403 when the tokens differ and otherwise removes
  the client and answers 200.
\<close>

theorem kill_tunnel_secret_check_first:
  "(secret_cfg = None \<or> secret_cfg = Some [] \<longrightarrow>
      kill_tunnel dec secret_cfg m clientId authorization =
        (Thrown 403 ''secret is missing'', m)) \<and>
   (fst (kill_tunnel dec secret_cfg m clientId authorization) = Thrown 404 msg \<longrightarrow>
      (\<exists>s. secret_cfg = Some s \<and> s \<noteq> []) \<and> \<not> hasClient m clientId) \<and>
   (secret_cfg = Some s \<and> s \<noteq> [] \<and> \<not> hasClient m clientId \<longrightarrow>
      kill_tunnel dec secret_cfg m clientId authorization =
        (Thrown 404 (''client with id '' @ clientId @ '' is not connected''), m)) \<and>
   (secret_cfg = Some s \<and> s \<noteq> [] \<and> getClient m clientId = InheritedValue \<longrightarrow>
      kill_tunnel dec secret_cfg m clientId authorization = (Raised TypeError, m)) \<and>
   (secret_cfg = Some s \<and> s \<noteq> [] \<and> getClient m clientId = AClient c \<and>
    \<not> isSecurityTokenEqual dec c authorization \<longrightarrow>
      kill_tunnel dec secret_cfg m clientId authorization =
        (Thrown 403 (''client with id '' @ clientId
           @ '' has not the same securityToken than '' @ show_jsstring authorization), m)) \<and>
   (secret_cfg = Some s \<and> s \<noteq> [] \<and> getClient m clientId = AClient c \<and>
    isSecurityTokenEqual dec c authorization \<longrightarrow>
      kill_tunnel dec secret_cfg m clientId authorization =
        (Responded 200 (''client with id '' @ clientId @ '' is disconected''),
         removeClient m clientId))"
  (is "?no_secret \<and> ?only_with_secret \<and> ?unknown \<and> ?inherited \<and> ?mismatch \<and> ?killed")
proof (intro conjI)
  show ?no_secret by (auto simp: kill_tunnel_def)
next
  show ?only_with_secret
  proof
    assume r: "fst (kill_tunnel dec secret_cfg m clientId authorization) = Thrown 404 msg"
    have secret: "\<exists>s. secret_cfg = Some s \<and> s \<noteq> []"
    proof (rule ccontr)
      assume "\<not> (\<exists>s. secret_cfg = Some s \<and> s \<noteq> [])"
      then have "secret_cfg = None \<or> secret_cfg = Some []" by (cases secret_cfg) auto
      then have "fst (kill_tunnel dec secret_cfg m clientId authorization) =
          Thrown 403 ''secret is missing''"
        by (auto simp: kill_tunnel_def)
      with r show False by simp
    qed
    have "\<not> hasClient m clientId"
    proof
      assume "hasClient m clientId"
      with secret have "\<forall>t. fst (kill_tunnel dec secret_cfg m clientId authorization) \<noteq> Thrown 404 t"
        by (auto simp: kill_tunnel_def split: client_value.splits)
      with r show False by simp
    qed
    with secret show "(\<exists>s. secret_cfg = Some s \<and> s \<noteq> []) \<and> \<not> hasClient m clientId" ..
  qed
next
  show ?unknown by (auto simp: kill_tunnel_def)
next
  show ?inherited
    by (auto simp: kill_tunnel_def hasClient_def getClient_def split: option.splits if_splits)
next
  show ?mismatch
    by (auto simp: kill_tunnel_def hasClient_def getClient_def split: option.splits if_splits)
next
  show ?killed
    by (auto simp: kill_tunnel_def hasClient_def getClient_def split: option.splits if_splits)
qed

lemma kill_scenario_facts:
  "getClient (snd (newClient
       \<lparr>opt_cm = \<lparr>max_tcp_sockets = None, range_opt = None, secret_opt = Some ''s3cret''\<rparr>,
        heap = [], clients = Map.empty,
        portManager = \<lparr>range_pm = None, first_pm = None, last_pm = None, pool = Map.empty\<rparr>,
        stats_tunnels = 0\<rparr> (Some ''abcd'') (JString ''Bearer tokA'') ''rnd'' 4000)) ''abcd'' =
     AClient (heap (snd (newClient
       \<lparr>opt_cm = \<lparr>max_tcp_sockets = None, range_opt = None, secret_opt = Some ''s3cret''\<rparr>,
        heap = [], clients = Map.empty,
        portManager = \<lparr>range_pm = None, first_pm = None, last_pm = None, pool = Map.empty\<rparr>,
        stats_tunnels = 0\<rparr> (Some ''abcd'') (JString ''Bearer tokA'') ''rnd'' 4000)) ! 0) \<and>
   isSecurityTokenEqual
     (\<lambda>t. if t = ''tokA'' then Inr (PObject [(''name'', VString ''alice'')])
          else if t = ''tokB'' then Inr (PObject [(''name'', VString ''bob'')])
          else Inr PNull)
     (heap (snd (newClient
       \<lparr>opt_cm = \<lparr>max_tcp_sockets = None, range_opt = None, secret_opt = Some ''s3cret''\<rparr>,
        heap = [], clients = Map.empty,
        portManager = \<lparr>range_pm = None, first_pm = None, last_pm = None, pool = Map.empty\<rparr>,
        stats_tunnels = 0\<rparr> (Some ''abcd'') (JString ''Bearer tokA'') ''rnd'' 4000)) ! 0)
     (JString ''Bearer tokA'') \<and>
   \<not> isSecurityTokenEqual
     (\<lambda>t. if t = ''tokA'' then Inr (PObject [(''name'', VString ''alice'')])
          else if t = ''tokB'' then Inr (PObject [(''name'', VString ''bob'')])
          else Inr PNull)
     (heap (snd (newClient
       \<lparr>opt_cm = \<lparr>max_tcp_sockets = None, range_opt = None, secret_opt = Some ''s3cret''\<rparr>,
        heap = [], clients = Map.empty,
        portManager = \<lparr>range_pm = None, first_pm = None, last_pm = None, pool = Map.empty\<rparr>,
        stats_tunnels = 0\<rparr> (Some ''abcd'') (JString ''Bearer tokA'') ''rnd'' 4000)) ! 0)
     (JString ''Bearer tokB'') \<and>
   \<not> hasClient (removeClient (snd (newClient
       \<lparr>opt_cm = \<lparr>max_tcp_sockets = None, range_opt = None, secret_opt = Some ''s3cret''\<rparr>,
        heap = [], clients = Map.empty,
        portManager = \<lparr>range_pm = None, first_pm = None, last_pm = None, pool = Map.empty\<rparr>,
        stats_tunnels = 0\<rparr> (Some ''abcd'') (JString ''Bearer tokA'') ''rnd'' 4000)) ''abcd'') ''abcd'' \<and>
   \<not> hasClient (snd (newClient
       \<lparr>opt_cm = \<lparr>max_tcp_sockets = None, range_opt = None, secret_opt = Some ''s3cret''\<rparr>,
        heap = [], clients = Map.empty,
        portManager = \<lparr>range_pm = None, first_pm = None, last_pm = None, pool = Map.empty\<rparr>,
        stats_tunnels = 0\<rparr> (Some ''abcd'') (JString ''Bearer tokA'') ''rnd'' 4000)) ''nosuch'' \<and>
   getClient (snd (newClient
       \<lparr>opt_cm = \<lparr>max_tcp_sockets = None, range_opt = None, secret_opt = Some ''s3cret''\<rparr>,
        heap = [], clients = Map.empty,
        portManager = \<lparr>range_pm = None, first_pm = None, last_pm = None, pool = Map.empty\<rparr>,
        stats_tunnels = 0\<rparr> (Some ''abcd'') (JString ''Bearer tokA'') ''rnd'' 4000)) ''constructor'' =
     InheritedValue"
  by code_simp

text \<open>
  Witness for C10. Without a secret: 403 for an unknown id. With a secret
  and a session stored under \<^verbatim>\<open>abcd\<close> with a token whose name is alice, each
  request carrying a token (\<^verbatim>\<open>tokA\<close> for alice, \<^verbatim>\<open>tokB\<close> for bob) that the
  middleware accepts: an unknown id gives 404, the id
  \<^verbatim>\<open>constructor\<close> a TypeError, \<^verbatim>\<open>abcd\<close> with a token whose name is bob 403, and
  \<^verbatim>\<open>abcd\<close> with one whose name is alice 200 with the session removed.
\<close>

theorem kill_tunnel_secret_check_first_witness:
  "fst (kill_tunnel
     (\<lambda>t. if t = ''tokA'' then Inr (PObject [(''name'', VString ''alice'')])
          else if t = ''tokB'' then Inr (PObject [(''name'', VString ''bob'')])
          else Inr PNull)
     None
     \<lparr>opt_cm = \<lparr>max_tcp_sockets = None, range_opt = None, secret_opt = None\<rparr>,
      heap = [], clients = Map.empty,
      portManager = \<lparr>range_pm = None, first_pm = None, last_pm = None, pool = Map.empty\<rparr>,
      stats_tunnels = 0\<rparr> ''nosuch'' JUndefined) =
     Thrown 403 ''secret is missing'' \<and>
   fst (kill_tunnel
     (\<lambda>t. if t = ''tokA'' then Inr (PObject [(''name'', VString ''alice'')])
          else if t = ''tokB'' then Inr (PObject [(''name'', VString ''bob'')])
          else Inr PNull)
     (Some ''s3cret'')
     (snd (newClient
       \<lparr>opt_cm = \<lparr>max_tcp_sockets = None, range_opt = None, secret_opt = Some ''s3cret''\<rparr>,
        heap = [], clients = Map.empty,
        portManager = \<lparr>range_pm = None, first_pm = None, last_pm = None, pool = Map.empty\<rparr>,
        stats_tunnels = 0\<rparr> (Some ''abcd'') (JString ''Bearer tokA'') ''rnd'' 4000))
     ''nosuch'' (JString ''Bearer tokB'')) =
     Thrown 404 ''client with id nosuch is not connected'' \<and>
   fst (kill_tunnel
     (\<lambda>t. if t = ''tokA'' then Inr (PObject [(''name'', VString ''alice'')])
          else if t = ''tokB'' then Inr (PObject [(''name'', VString ''bob'')])
          else Inr PNull)
     (Some ''s3cret'')
     (snd (newClient
       \<lparr>opt_cm = \<lparr>max_tcp_sockets = None, range_opt = None, secret_opt = Some ''s3cret''\<rparr>,
        heap = [], clients = Map.empty,
        portManager = \<lparr>range_pm = None, first_pm = None, last_pm = None, pool = Map.empty\<rparr>,
        stats_tunnels = 0\<rparr> (Some ''abcd'') (JString ''Bearer tokA'') ''rnd'' 4000))
     ''constructor'' (JString ''Bearer tokB'')) =
     Raised TypeError \<and>
   fst (kill_tunnel
     (\<lambda>t. if t = ''tokA'' then Inr (PObject [(''name'', VString ''alice'')])
          else if t = ''tokB'' then Inr (PObject [(''name'', VString ''bob'')])
          else Inr PNull)
     (Some ''s3cret'')
     (snd (newClient
       \<lparr>opt_cm = \<lparr>max_tcp_sockets = None, range_opt = None, secret_opt = Some ''s3cret''\<rparr>,
        heap = [], clients = Map.empty,
        portManager = \<lparr>range_pm = None, first_pm = None, last_pm = None, pool = Map.empty\<rparr>,
        stats_tunnels = 0\<rparr> (Some ''abcd'') (JString ''Bearer tokA'') ''rnd'' 4000))
     ''abcd'' (JString ''Bearer tokB'')) =
     Thrown 403 ''client with id abcd has not the same securityToken than Bearer tokB'' \<and>
   fst (kill_tunnel
     (\<lambda>t. if t = ''tokA'' then Inr (PObject [(''name'', VString ''alice'')])
          else if t = ''tokB'' then Inr (PObject [(''name'', VString ''bob'')])
          else Inr PNull)
     (Some ''s3cret'')
     (snd (newClient
       \<lparr>opt_cm = \<lparr>max_tcp_sockets = None, range_opt = None, secret_opt = Some ''s3cret''\<rparr>,
        heap = [], clients = Map.empty,
        portManager = \<lparr>range_pm = None, first_pm = None, last_pm = None, pool = Map.empty\<rparr>,
        stats_tunnels = 0\<rparr> (Some ''abcd'') (JString ''Bearer tokA'') ''rnd'' 4000))
     ''abcd'' (JString ''Bearer tokA'')) =
     Responded 200 ''client with id abcd is disconected'' \<and>
   \<not> hasClient (snd (kill_tunnel
     (\<lambda>t. if t = ''tokA'' then Inr (PObject [(''name'', VString ''alice'')])
          else if t = ''tokB'' then Inr (PObject [(''name'', VString ''bob'')])
          else Inr PNull)
     (Some ''s3cret'')
     (snd (newClient
       \<lparr>opt_cm = \<lparr>max_tcp_sockets = None, range_opt = None, secret_opt = Some ''s3cret''\<rparr>,
        heap = [], clients = Map.empty,
        portManager = \<lparr>range_pm = None, first_pm = None, last_pm = None, pool = Map.empty\<rparr>,
        stats_tunnels = 0\<rparr> (Some ''abcd'') (JString ''Bearer tokA'') ''rnd'' 4000))
     ''abcd'' (JString ''Bearer tokA''))) ''abcd''"
proof -
  let ?e0 = "\<lparr>opt_cm = \<lparr>max_tcp_sockets = None, range_opt = None, secret_opt = None\<rparr>,
      heap = [], clients = Map.empty,
      portManager = \<lparr>range_pm = None, first_pm = None, last_pm = None, pool = Map.empty\<rparr>,
      stats_tunnels = 0\<rparr>"
  let ?e1 = "\<lparr>opt_cm = \<lparr>max_tcp_sockets = None, range_opt = None, secret_opt = Some ''s3cret''\<rparr>,
      heap = [], clients = Map.empty,
      portManager = \<lparr>range_pm = None, first_pm = None, last_pm = None, pool = Map.empty\<rparr>,
      stats_tunnels = 0\<rparr>"
  let ?m = "snd (newClient ?e1 (Some ''abcd'') (JString ''Bearer tokA'') ''rnd'' 4000)"
  let ?dec = "\<lambda>t. if t = ''tokA'' then Inr (PObject [(''name'', VString ''alice'')])
          else if t = ''tokB'' then Inr (PObject [(''name'', VString ''bob'')])
          else Inr PNull"
  note f = kill_scenario_facts
  from f have g: "getClient ?m ''abcd'' = AClient (heap ?m ! 0)" by blast
  from f have b: "\<not> isSecurityTokenEqual ?dec (heap ?m ! 0) (JString ''Bearer tokB'')" by blast
  from f have a: "isSecurityTokenEqual ?dec (heap ?m ! 0) (JString ''Bearer tokA'')" by blast
  from f have r: "\<not> hasClient (removeClient ?m ''abcd'') ''abcd''" by blast
  from f have n: "\<not> hasClient ?m ''nosuch''" by blast
  from f have i: "getClient ?m ''constructor'' = InheritedValue" by blast
  have 1: "kill_tunnel ?dec None ?e0 ''nosuch'' JUndefined =
     (Thrown 403 ''secret is missing'', ?e0)"
    using kill_tunnel_secret_check_first
      [where secret_cfg = None and m = ?e0 and clientId = "''nosuch''"
         and dec = ?dec and authorization = JUndefined]
    by simp
  have 2: "kill_tunnel ?dec (Some ''s3cret'') ?m ''nosuch'' (JString ''Bearer tokB'') =
     (Thrown 404 (''client with id '' @ ''nosuch'' @ '' is not connected''), ?m)"
    using kill_tunnel_secret_check_first
      [where secret_cfg = "Some ''s3cret''" and s = "''s3cret''" and m = ?m
         and clientId = "''nosuch''"
         and dec = ?dec and authorization = "JString ''Bearer tokB''"] n
    by blast
  have 3: "kill_tunnel ?dec (Some ''s3cret'') ?m ''constructor'' (JString ''Bearer tokB'') =
     (Raised TypeError, ?m)"
    using kill_tunnel_secret_check_first
      [where secret_cfg = "Some ''s3cret''" and s = "''s3cret''" and m = ?m
         and clientId = "''constructor''"
         and dec = ?dec and authorization = "JString ''Bearer tokB''"] i
    by blast
  have 4: "kill_tunnel ?dec (Some ''s3cret'') ?m ''abcd'' (JString ''Bearer tokB'') =
     (Thrown 403 (''client with id '' @ ''abcd''
        @ '' has not the same securityToken than '' @ show_jsstring (JString ''Bearer tokB'')), ?m)"
    using kill_tunnel_secret_check_first
      [where secret_cfg = "Some ''s3cret''" and s = "''s3cret''" and m = ?m
         and clientId = "''abcd''" and c = "heap ?m ! 0"
         and dec = ?dec and authorization = "JString ''Bearer tokB''"] g b
    by blast
  have 5: "kill_tunnel ?dec (Some ''s3cret'') ?m ''abcd'' (JString ''Bearer tokA'') =
     (Responded 200 (''client with id '' @ ''abcd'' @ '' is disconected''),
      removeClient ?m ''abcd'')"
    using kill_tunnel_secret_check_first
      [where secret_cfg = "Some ''s3cret''" and s = "''s3cret''" and m = ?m
         and clientId = "''abcd''" and c = "heap ?m ! 0"
         and dec = ?dec and authorization = "JString ''Bearer tokA''"] g a
    by blast
  show ?thesis
    unfolding 1 2 3 4 5 using r by (simp add: show_jsstring_def)
qed

end
